theory Spec2Isabelle
  imports Complex_Main
begin

section \<open>Data model\<close>

text \<open>
  The annotation engine of the script viewer: the PDF viewer component (pointer gestures,
  ink strokes, erase, undo, overlay composition, page rendering), the three handlers that
  save a cue and validate its index number, and the server actions they call.

  Conventions of the embedding.
  \<^item> A JavaScript number is a \<open>real\<close>. The two places where the viewer compares
    numbers it has computed, the margin test of \<open>renderHighlights\<close> and the distance
    test of \<open>handleEraseAtPoint\<close>, are computed as JavaScript computes them: every
    operation there is rounded to binary64 (section ``Binary floating point''). The
    normalisation of a gesture and the scaling of a stored path are kept exact. Division
    by zero is \<open>0\<close> in HOL and non-finite in JavaScript, so every statement about
    normalised coordinates assumes a canvas of positive width and height, and where the
    source prints such a value (the path of a stroke) or branches on it (the erase hit
    test) the non-finite case is written out.
  \<^item> \<open>path_data\<close> is an SVG path string \<open>M x y L x y ...\<close>. It is kept as the list of
    its blank-separated tokens, a command letter or the text of a number. A number text
    keeps its notation (plain, exponent, signed, not finite), which decides what the
    regular expressions of the viewer read from it; its digits are identified with the
    number they denote.
  \<^item> Component state (\<open>useState\<close>, refs, props) is one record, passed explicitly; the
    database tables behind the server actions are another record.
  \<^item> Record fields are prefixed where the source's name is a single letter or is shared by
    two interfaces (\<open>box_x\<close> for \<open>SelectionBox.x\<close>, \<open>mark_page_number\<close> for
    \<open>HighlightMark.page_number\<close>).
\<close>

type_synonym point = "real \<times> real"

record SelectionBox =
  box_x :: real
  box_y :: real
  box_width :: real
  box_height :: real

datatype AnnotationType =
  Blocking | MusicCue | LightingCue | SoundAudioCue | ProjectionMedia
  | PropNote | CostumeNote | SetScenicNote | DirectorNote

fun ANNOTATION_COLORS :: "AnnotationType \<Rightarrow> string" where
  "ANNOTATION_COLORS Blocking = ''#DAA520''"
| "ANNOTATION_COLORS MusicCue = ''#9C27B0''"
| "ANNOTATION_COLORS LightingCue = ''#FFC107''"
| "ANNOTATION_COLORS SoundAudioCue = ''#2196F3''"
| "ANNOTATION_COLORS ProjectionMedia = ''#00BCD4''"
| "ANNOTATION_COLORS PropNote = ''#4CAF50''"
| "ANNOTATION_COLORS CostumeNote = ''#E91E63''"
| "ANNOTATION_COLORS SetScenicNote = ''#795548''"
| "ANNOTATION_COLORS DirectorNote = ''#F44336''"

definition DEFAULT_ANNOTATION_TYPE :: AnnotationType where
  "DEFAULT_ANNOTATION_TYPE = Blocking"

definition getAnnotationColor :: "AnnotationType option \<Rightarrow> string" where
  "getAnnotationColor ty =
     ANNOTATION_COLORS (case ty of None \<Rightarrow> DEFAULT_ANNOTATION_TYPE | Some t \<Rightarrow> t)"

datatype SelectionType = SelText | SelArea

text \<open>Timestamps (\<open>new Date().toISOString()\<close>) are readings of a clock, a \<open>nat\<close>.\<close>

record BlockingEntry =
  entry_id :: string
  script_id :: string
  page_number :: nat
  index_number :: int
  selection_type :: SelectionType
  selection_text :: "string option"
  selection_box :: SelectionBox
  blocking_text :: string
  annotation_type :: AnnotationType
  color :: string
  created_at :: nat
  updated_at :: nat

text \<open>
  The tokens of a path string. \<open>Num v\<close> is a number in plain decimal notation
  (\<open>0.125\<close>, \<open>200\<close>), \<open>Sci v\<close> a positive number in exponent notation (\<open>5e-7\<close>,
  \<open>1e+21\<close>), \<open>Neg t\<close> a minus sign before the text \<open>t\<close>, and \<open>NonFinite\<close> one of
  \<open>NaN\<close>, \<open>Infinity\<close>, \<open>-Infinity\<close>.
\<close>

datatype tok = Cmd char | Num real | Sci real | Neg tok | NonFinite

text \<open>
  The text a template literal gives a number (\<open>Number::toString\<close>): plain notation for 0
  and for magnitudes from \<open>1e-6\<close> up to, not including, \<open>1e21\<close>, exponent notation for
  the others. A division by zero yields \<open>NaN\<close> or an infinity.
\<close>

definition plain :: "real \<Rightarrow> bool" where
  "plain v = (v = 0 \<or> (1 / 10 ^ 6 \<le> v \<and> v < 10 ^ 21))"

definition magnitude_text :: "real \<Rightarrow> tok" where
  "magnitude_text v = (if plain v then Num v else Sci v)"

definition number_text :: "real \<Rightarrow> tok" where
  "number_text v = (if v < 0 then Neg (magnitude_text (- v)) else magnitude_text v)"

definition quotient_text :: "real \<Rightarrow> real \<Rightarrow> tok" where
  "quotient_text a b = (if b = 0 then NonFinite else number_text (a / b))"

record HighlightMark =
  mark_id :: string
  mark_script_id :: string
  mark_page_number :: nat
  path_data :: "tok list"
  mark_color :: string
  thickness :: real
  opacity :: real
  mark_created_at :: nat


section \<open>Binary floating point\<close>

text \<open>
  \<open>binary64 x\<close> is the IEEE 754 double nearest to \<open>x\<close>, a tie going to the even
  significand: \<open>x\<close> is rounded to a multiple of \<open>2 ^ (e - 52)\<close>, where \<open>2 ^ e\<close> is
  the largest power of two not above \<open>\<bar>x\<bar>\<close>, and \<open>e\<close> is \<open>- 1022\<close> for the
  subnormal numbers below \<open>2 ^ - 1022\<close>. \<open>halvings\<close> and \<open>doublings\<close> count the
  steps that bring a number into \<open>[1, 2)\<close>, at most 1023 down and 1022 up. (A magnitude
  from \<open>2 ^ 1024\<close> on, which JavaScript rounds to \<open>Infinity\<close>, is rounded with
  \<open>e = 1023\<close> here; no coordinate of a canvas comes near it.)
\<close>

fun halvings :: "nat \<Rightarrow> real \<Rightarrow> int" where
  "halvings 0 x = 0"
| "halvings (Suc n) x = (if x < 2 then 0 else halvings n (x / 2) + 1)"

fun doublings :: "nat \<Rightarrow> real \<Rightarrow> int" where
  "doublings 0 x = 0"
| "doublings (Suc n) x = (if 1 \<le> x then 0 else doublings n (x * 2) - 1)"

definition exponent2 :: "real \<Rightarrow> int" where
  "exponent2 x = (if 1 \<le> x then halvings 1023 x else doublings 1022 x)"

definition roundTiesToEven :: "real \<Rightarrow> int" where
  "roundTiesToEven x =
     (if x - of_int \<lfloor>x\<rfloor> < 1 / 2 then \<lfloor>x\<rfloor>
      else if 1 / 2 < x - of_int \<lfloor>x\<rfloor> then \<lfloor>x\<rfloor> + 1
      else if even \<lfloor>x\<rfloor> then \<lfloor>x\<rfloor> else \<lfloor>x\<rfloor> + 1)"

definition binary64 :: "real \<Rightarrow> real" where
  "binary64 x =
     sgn x * of_int (roundTiesToEven (\<bar>x\<bar> / 2 powi (exponent2 \<bar>x\<bar> - 52)))
       * 2 powi (exponent2 \<bar>x\<bar> - 52)"

text \<open>
  The operators \<open>+\<close>, \<open>-\<close>, \<open>*\<close>, \<open>/\<close> of JavaScript on two doubles, and
  \<open>Math.sqrt\<close>: the exact result, rounded. \<open>Math.pow\<close> is used by the source with
  the exponent 2 only, where it returns the rounded product \<open>x * x\<close>. \<open>parseFloat\<close>
  of a run of digits and a number literal of the source are the doubles nearest to the
  decimal numbers written.
\<close>

definition add64 :: "real \<Rightarrow> real \<Rightarrow> real" where
  "add64 a b = binary64 (a + b)"

definition sub64 :: "real \<Rightarrow> real \<Rightarrow> real" where
  "sub64 a b = binary64 (a - b)"

definition mul64 :: "real \<Rightarrow> real \<Rightarrow> real" where
  "mul64 a b = binary64 (a * b)"

definition div64 :: "real \<Rightarrow> real \<Rightarrow> real" where
  "div64 a b = binary64 (a / b)"

definition Math_sqrt :: "real \<Rightarrow> real" where
  "Math_sqrt x = binary64 (sqrt x)"

definition Math_pow :: "real \<Rightarrow> nat \<Rightarrow> real" where
  "Math_pow x n = binary64 (x ^ n)"

definition parseFloat :: "real \<Rightarrow> real" where
  "parseFloat digits = binary64 digits"


section \<open>Server actions (actions/highlights.ts, actions/entries.ts)\<close>

text \<open>
  The two tables, each row with the \<open>user_id\<close> column the actions add. \<open>failing\<close>
  says whether the database answers with an error; \<open>delete_requests\<close> is the trace of
  the mark ids whose deletion the database has served, in order.
\<close>

record backend =
  highlight_marks :: "(string \<times> HighlightMark) list"
  blocking_entries :: "(string \<times> BlockingEntry) list"
  failing :: bool
  delete_requests :: "string list"

datatype error = RepositoryFailure

text \<open>\<open>upsert\<close> on the primary key: the row with that key is replaced, a new key is appended.\<close>

fun upsert :: "('r \<Rightarrow> string) \<Rightarrow> 'r \<Rightarrow> 'r list \<Rightarrow> 'r list" where
  "upsert key r [] = [r]"
| "upsert key r (q # qs) = (if key q = key r then r # qs else q # upsert key r qs)"

definition saveHighlightMark :: "HighlightMark \<Rightarrow> string \<Rightarrow> backend \<Rightarrow> error + backend" where
  "saveHighlightMark mark userId b =
     (if failing b then Inl RepositoryFailure
      else Inr (b\<lparr>highlight_marks := upsert (mark_id \<circ> snd) (userId, mark) (highlight_marks b)\<rparr>))"

definition getHighlightsForPage :: "string \<Rightarrow> nat \<Rightarrow> string \<Rightarrow> backend \<Rightarrow> HighlightMark list" where
  "getHighlightsForPage scriptId pageNumber userId b =
     (if failing b then []
      else sort_key mark_created_at
             (map snd (filter (\<lambda>(u, m). mark_script_id m = scriptId
                                  \<and> mark_page_number m = pageNumber \<and> u = userId)
                         (highlight_marks b))))"

definition deleteHighlightMark :: "string \<Rightarrow> string \<Rightarrow> backend \<Rightarrow> error + backend" where
  "deleteHighlightMark markId userId b =
     (if failing b then Inl RepositoryFailure
      else Inr (b\<lparr>highlight_marks :=
                     filter (\<lambda>(u, m). \<not> (mark_id m = markId \<and> u = userId)) (highlight_marks b),
                   delete_requests := delete_requests b @ [markId]\<rparr>))"

definition saveBlockingEntry :: "BlockingEntry \<Rightarrow> string \<Rightarrow> backend \<Rightarrow> error + backend" where
  "saveBlockingEntry entry userId b =
     (if failing b then Inl RepositoryFailure
      else Inr (b\<lparr>blocking_entries := upsert (entry_id \<circ> snd) (userId, entry) (blocking_entries b)\<rparr>))"

definition getEntriesForPage :: "string \<Rightarrow> nat \<Rightarrow> string \<Rightarrow> backend \<Rightarrow> BlockingEntry list" where
  "getEntriesForPage scriptId pageNumber userId b =
     (if failing b then []
      else sort_key index_number
             (map snd (filter (\<lambda>(u, e). script_id e = scriptId
                                  \<and> page_number e = pageNumber \<and> u = userId)
                         (blocking_entries b))))"


section \<open>The PDF viewer component\<close>

datatype HighlightMode = Off | Draw | Erase

text \<open>
  An element of the text layer, as \<open>handleMouseUp\<close> reads it: the left and top of its
  bounding rectangle relative to the canvas, the rectangle's size and the text.
\<close>

record TextElement =
  elemX :: real
  elemY :: real
  rect_width :: real
  rect_height :: real
  textContent :: string

text \<open>What the overlay holds for one cue: the connector polyline and the index badge.\<close>

record Annotation =
  ann_entry_id :: string
  polyline_points :: "point list"
  polyline_stroke :: string
  polyline_stroke_width :: real
  circle_cx :: real
  circle_cy :: real
  circle_r :: real
  circle_fill :: string
  circle_stroke :: "string option"
  text_content :: int

text \<open>What the overlay holds for one ink stroke: the path in canvas pixels and its paint.\<close>

record HighlightSvg =
  svg_d :: "tok list"
  svg_stroke :: string
  svg_stroke_width :: real
  svg_stroke_opacity :: real

record PDFViewer =
  scriptId :: string
  userId :: string
  currentPage :: nat
  entries :: "BlockingEntry list"
  selectedEntryId :: "string option"
  canvasRef :: "(real \<times> real) option"
  hasTextLayer :: bool
  textLayer :: "TextElement list"
  isDrawing :: bool
  selectionStart :: "point option"
  selectionEnd :: "point option"
  highlightMode :: HighlightMode
  highlightColor :: string
  highlightThickness :: real
  highlightOpacity :: real
  highlights :: "HighlightMark list"
  currentPath :: "point list"
  isDrawingHighlight :: bool
  highlightHistory :: "string list"
  pageRenderKey :: nat
  blocking_annotation :: "Annotation list"
  highlight_mark :: "HighlightSvg list"

text \<open>
  \<open>canvasRef\<close> is the width and height of the page canvas, \<open>None\<close> while the ref is
  empty. \<open>blocking_annotation\<close> and \<open>highlight_mark\<close> are the two overlay layers in the
  container (the elements of those two CSS classes).
\<close>

type_synonym world = "PDFViewer \<times> backend"

subsection \<open>Undo, erase, clear, page change\<close>

definition handleUndoHighlight :: "world \<Rightarrow> error + world" where
  "handleUndoHighlight w =
     (let (v, b) = w in
      if highlightHistory v = [] then Inr w
      else
        let lastId = last (highlightHistory v);
            newHistory = butlast (highlightHistory v)
        in (case deleteHighlightMark lastId (userId v) b of
              Inl e \<Rightarrow> Inl e
            | Inr b' \<Rightarrow>
                Inr (v\<lparr>highlights := getHighlightsForPage (scriptId v) (currentPage v) (userId v) b',
                        highlightHistory := newHistory\<rparr>, b')))"

text \<open>
  \<open>mark.path_data.match(/[\d.]+/g)\<close>: the runs of digits and dots of the path, in
  order. A number in plain notation is one run; a number in exponent notation is two, its
  mantissa and the digits of its exponent (\<open>1.25e-8\<close> gives \<open>1.25\<close> and \<open>8\<close>); a
  minus sign is skipped; \<open>NaN\<close> and \<open>Infinity\<close> have no digits. A run is kept as the
  decimal number it writes.
\<close>

definition exponent10 :: "real \<Rightarrow> int" where
  "exponent10 v = \<lfloor>log 10 v\<rfloor>"

definition mantissa10 :: "real \<Rightarrow> real" where
  "mantissa10 v = v / 10 powr (of_int (exponent10 v))"

fun digit_runs :: "tok \<Rightarrow> real list" where
  "digit_runs (Cmd c) = []"
| "digit_runs (Num v) = [v]"
| "digit_runs (Sci v) = [mantissa10 v, of_int \<bar>exponent10 v\<bar>]"
| "digit_runs (Neg t) = digit_runs t"
| "digit_runs NonFinite = []"

fun pathPoints :: "tok list \<Rightarrow> real list" where
  "pathPoints [] = []"
| "pathPoints (t # ts) = digit_runs t @ pathPoints ts"

text \<open>The literal \<open>0.02\<close> of the source.\<close>

definition threshold :: real where
  "threshold = binary64 0.02"

text \<open>
  The inner loop of \<open>handleEraseAtPoint\<close>: it reads the runs two at a time
  (\<open>i += 2\<close>), each with \<open>parseFloat\<close>, and stops at the first pair whose distance
  from the hit, computed in binary64, is below the threshold. A last run without a partner
  has \<open>py = NaN\<close>, whose distance is below no threshold.
\<close>

fun near_path :: "real \<Rightarrow> real \<Rightarrow> real list \<Rightarrow> bool" where
  "near_path normX normY (run_x # run_y # rest) =
     (let px = parseFloat run_x;
          py = parseFloat run_y;
          distance = Math_sqrt (add64 (Math_pow (sub64 px normX) 2) (Math_pow (sub64 py normY) 2))
      in distance < threshold \<or> near_path normX normY rest)"
| "near_path normX normY rest = False"

definition handleEraseAtPoint :: "real \<Rightarrow> real \<Rightarrow> world \<Rightarrow> error + world" where
  "handleEraseAtPoint x y w =
     (let (v, b) = w in
      case canvasRef v of
        None \<Rightarrow> Inr w
      | Some (canvasWidth, canvasHeight) \<Rightarrow>
          (if canvasWidth = 0 \<or> canvasHeight = 0 then Inr w
           else
             (let normX = div64 x canvasWidth; normY = div64 y canvasHeight
              in (case find (\<lambda>mark. near_path normX normY (pathPoints (path_data mark)))
                          (highlights v) of
                    None \<Rightarrow> Inr w
                  | Some mark \<Rightarrow>
                      (case deleteHighlightMark (mark_id mark) (userId v) b of
                         Inl e \<Rightarrow> Inl e
                       | Inr b' \<Rightarrow>
                           Inr (v\<lparr>highlights :=
                                    getHighlightsForPage (scriptId v) (currentPage v) (userId v) b'\<rparr>,
                                b'))))))"

fun deleteAll :: "HighlightMark list \<Rightarrow> string \<Rightarrow> backend \<Rightarrow> error + backend" where
  "deleteAll [] u b = Inr b"
| "deleteAll (mark # marks) u b =
     (case deleteHighlightMark (mark_id mark) u b of
        Inl e \<Rightarrow> Inl e
      | Inr b' \<Rightarrow> deleteAll marks u b')"

text \<open>\<open>confirmed\<close> is the user's answer to the confirmation dialog.\<close>

definition handleClearAllHighlights :: "bool \<Rightarrow> world \<Rightarrow> error + world" where
  "handleClearAllHighlights confirmed w =
     (let (v, b) = w in
      if \<not> confirmed then Inr w
      else (case deleteAll (highlights v) (userId v) b of
              Inl e \<Rightarrow> Inl e
            | Inr b' \<Rightarrow>
                Inr (v\<lparr>highlights := getHighlightsForPage (scriptId v) (currentPage v) (userId v) b',
                        highlightHistory := []\<rparr>, b')))"

text \<open>The effect that runs when the script, the page or the user changes.\<close>

definition loadHighlights :: "world \<Rightarrow> world" where
  "loadHighlights w =
     (let (v, b) = w in
      (v\<lparr>highlights := getHighlightsForPage (scriptId v) (currentPage v) (userId v) b,
         highlightHistory := []\<rparr>, b))"

text \<open>The parent's \<open>onPageChange\<close> sets the \<open>currentPage\<close> prop, and the effect follows.\<close>

definition onPageChange :: "nat \<Rightarrow> world \<Rightarrow> world" where
  "onPageChange page w = (let (v, b) = w in loadHighlights (v\<lparr>currentPage := page\<rparr>, b))"

subsection \<open>Pointer gestures\<close>

text \<open>
  The pointer position \<open>(x, y)\<close> handed to the handlers is already relative to the canvas
  (\<open>e.clientX - canvasRect.left\<close>, \<open>e.clientY - canvasRect.top\<close>). The erase call is
  not awaited: when the database fails, the rejection stays in the promise and the
  component is as before.
\<close>

definition handleMouseDown :: "real \<Rightarrow> real \<Rightarrow> world \<Rightarrow> world" where
  "handleMouseDown x y w =
     (let (v, b) = w in
      if canvasRef v = None then w
      else if highlightMode v = Draw then
        (v\<lparr>isDrawingHighlight := True, currentPath := [(x, y)]\<rparr>, b)
      else if highlightMode v = Erase then
        (case handleEraseAtPoint x y w of Inl e \<Rightarrow> w | Inr w' \<Rightarrow> w')
      else
        (v\<lparr>isDrawing := True, selectionStart := Some (x, y), selectionEnd := Some (x, y)\<rparr>, b))"

text \<open>\<open>buttons\<close> is \<open>e.buttons\<close>, the bit mask of the buttons held down.\<close>

definition handleMouseMove :: "real \<Rightarrow> real \<Rightarrow> nat \<Rightarrow> world \<Rightarrow> world" where
  "handleMouseMove x y buttons w =
     (let (v, b) = w in
      if canvasRef v = None then w
      else if highlightMode v = Draw \<and> isDrawingHighlight v then
        (v\<lparr>currentPath := currentPath v @ [(x, y)]\<rparr>, b)
      else if highlightMode v = Erase \<and> buttons = 1 then
        (case handleEraseAtPoint x y w of Inl e \<Rightarrow> w | Inr w' \<Rightarrow> w')
      else if isDrawing v then
        (v\<lparr>selectionEnd := Some (x, y)\<rparr>, b)
      else w)"

definition pathString :: "real \<Rightarrow> real \<Rightarrow> point list \<Rightarrow> tok list" where
  "pathString canvasWidth canvasHeight path =
     concat (map (\<lambda>(index, point).
                    [Cmd (if index = 0 then CHR ''M'' else CHR ''L''),
                     quotient_text (fst point) canvasWidth,
                     quotient_text (snd point) canvasHeight])
                 (enumerate 0 path))"

text \<open>The argument of \<open>onClickComplete\<close>.\<close>

record SelectionEvent =
  pageNumber :: nat
  selectionBox :: SelectionBox
  selectionText :: "string option"
  selectionType :: SelectionType

text \<open>
  \<open>text.trim()\<close> is empty when every character is white space (of the one-byte
  characters: tab, line feed, vertical tab, form feed, carriage return, space and the
  no-break space).
\<close>

definition is_space :: "char \<Rightarrow> bool" where
  "is_space c = (of_char c \<in> {9, 10, 11, 12, 13, 32, 160 :: nat})"

definition trim_empty :: "string \<Rightarrow> bool" where
  "trim_empty s = list_all is_space s"

text \<open>
  \<open>n.toFixed(0)\<close>: the sign is written when \<open>n < 0\<close>, the magnitude is rounded to the
  nearest integer, a tie to the larger one. The text is kept as the pair of the two.
\<close>

definition toFixed0 :: "real \<Rightarrow> bool \<times> int" where
  "toFixed0 n = (n < 0, \<lfloor>\<bar>n\<bar> + 1 / 2\<rfloor>)"

type_synonym posKey = "(bool \<times> int) \<times> (bool \<times> int) \<times> string"

fun textsInSelection ::
  "real \<Rightarrow> real \<Rightarrow> real \<Rightarrow> real \<Rightarrow> TextElement list \<Rightarrow> string list \<Rightarrow> posKey list \<Rightarrow> string list"
where
  "textsInSelection x1 y1 x2 y2 [] texts seenPositions = texts"
| "textsInSelection x1 y1 x2 y2 (element # elements) texts seenPositions =
     (let elemRight = elemX element + rect_width element;
          elemBottom = elemY element + rect_height element
      in if elemRight \<ge> x1 \<and> elemX element \<le> x2 \<and> elemBottom \<ge> y1 \<and> elemY element \<le> y2 then
           (let text = textContent element;
                posKey = (toFixed0 (elemX element), toFixed0 (elemY element), text)
            in if \<not> trim_empty text \<and> posKey \<notin> set seenPositions then
                 textsInSelection x1 y1 x2 y2 elements (texts @ [text]) (seenPositions @ [posKey])
               else textsInSelection x1 y1 x2 y2 elements texts seenPositions)
         else textsInSelection x1 y1 x2 y2 elements texts seenPositions)"

fun join :: "string \<Rightarrow> string list \<Rightarrow> string" where
  "join sep [] = []"
| "join sep [s] = s"
| "join sep (s # t # ts) = s @ sep @ join sep (t # ts)"

text \<open>
  \<open>markId\<close> is the identifier \<open>generateId()\<close> returns and \<open>now\<close> the clock's reading.
  The result is the new state and the event handed to \<open>onClickComplete\<close>, if any.
\<close>

definition handleMouseUp :: "string \<Rightarrow> nat \<Rightarrow> world \<Rightarrow> error + (world \<times> SelectionEvent option)" where
  "handleMouseUp markId now w =
     (let (v, b) = w in
      case (if highlightMode v = Draw \<and> isDrawingHighlight v \<and> length (currentPath v) > 1
            then canvasRef v else None) of
        Some (canvasWidth, canvasHeight) \<Rightarrow>
          (let newMark = \<lparr>mark_id = markId,
                          mark_script_id = scriptId v,
                          mark_page_number = currentPage v,
                          path_data = pathString canvasWidth canvasHeight (currentPath v),
                          mark_color = highlightColor v,
                          thickness = highlightThickness v,
                          opacity = highlightOpacity v,
                          mark_created_at = now\<rparr>
           in case saveHighlightMark newMark (userId v) b of
                Inl e \<Rightarrow> Inl e
              | Inr b' \<Rightarrow>
                  Inr ((v\<lparr>highlightHistory := highlightHistory v @ [markId],
                          highlights := getHighlightsForPage (scriptId v) (currentPage v) (userId v) b',
                          isDrawingHighlight := False,
                          currentPath := []\<rparr>, b'), None))
      | None \<Rightarrow>
          (case (if isDrawing v then selectionStart v else None, selectionEnd v, canvasRef v) of
             (Some start, Some end, Some (canvasWidth, canvasHeight)) \<Rightarrow>
               (let x1 = min (fst start) (fst end);
                    y1 = min (snd start) (snd end);
                    x2 = max (fst start) (fst end);
                    y2 = max (snd start) (snd end);
                    texts = (if hasTextLayer v
                             then textsInSelection x1 y1 x2 y2 (textLayer v) [] [] else []);
                    selectedText = join '' '' texts;
                    finalX = x1;
                    finalY = y1;
                    finalWidth = x2 - x1;
                    finalHeight = y2 - y1;
                    selectionBox = \<lparr>box_x = finalX / canvasWidth,
                                     box_y = finalY / canvasHeight,
                                     box_width = finalWidth / canvasWidth,
                                     box_height = finalHeight / canvasHeight\<rparr>
                in Inr ((v\<lparr>isDrawing := False, selectionStart := None, selectionEnd := None\<rparr>, b),
                        Some \<lparr>pageNumber = currentPage v,
                              selectionBox = selectionBox,
                              selectionText = (if selectedText = [] then None else Some selectedText),
                              selectionType = SelText\<rparr>))
           | _ \<Rightarrow> Inr ((v\<lparr>isDrawing := False, isDrawingHighlight := False\<rparr>, b), None)))"

subsection \<open>Overlay composition\<close>

text \<open>
  \<open>renderHighlights\<close>: the connector and the index badge of one cue of the page, every
  operation in binary64.
\<close>

definition renderAnnotation :: "real \<Rightarrow> real \<Rightarrow> string option \<Rightarrow> BlockingEntry \<Rightarrow> Annotation" where
  "renderAnnotation canvasWidth canvasHeight selected entry =
     (let textX = mul64 (box_x (selection_box entry)) canvasWidth;
          textY = mul64 (box_y (selection_box entry)) canvasHeight;
          textWidth = mul64 (box_width (selection_box entry)) canvasWidth;
          textHeight = mul64 (box_height (selection_box entry)) canvasHeight;
          centerX = add64 textX (div64 textWidth 2);
          pageMidline = div64 canvasWidth 2;
          isLeftHalf = centerX < pageMidline;
          lineY = add64 textY textHeight;
          horizontalOffset = 10;
          (lineStartX, offsetX, lineEndX) =
            (if isLeftHalf
             then (add64 textX textWidth, add64 (add64 textX textWidth) horizontalOffset, 20)
             else (textX, sub64 textX horizontalOffset, sub64 canvasWidth 20));
          annotationColor = getAnnotationColor (Some (annotation_type entry));
          circleY = sub64 lineY 15
      in \<lparr>ann_entry_id = entry_id entry,
          polyline_points = [(lineStartX, lineY), (offsetX, lineY), (lineEndX, lineY)],
          polyline_stroke = annotationColor,
          polyline_stroke_width = (if Some (entry_id entry) = selected then 2 else 1.5),
          circle_cx = lineEndX,
          circle_cy = circleY,
          circle_r = 12,
          circle_fill = annotationColor,
          circle_stroke = (if Some (entry_id entry) = selected then Some ''#000'' else None),
          text_content = index_number entry\<rparr>)"

definition renderHighlights :: "PDFViewer \<Rightarrow> PDFViewer" where
  "renderHighlights v =
     (case canvasRef v of
        None \<Rightarrow> v
      | Some (canvasWidth, canvasHeight) \<Rightarrow>
          v\<lparr>blocking_annotation :=
               map (renderAnnotation canvasWidth canvasHeight (selectedEntryId v))
                   (filter (\<lambda>entry. page_number entry = currentPage v) (entries v))\<rparr>)"

text \<open>
  The replacement of \<open>/([ML])\s+([\d.]+)\s+([\d.]+)/g\<close>. A match is a command \<open>M\<close> or
  \<open>L\<close>, a number in plain notation (the run of digits must end at a blank) and the
  leading run of digits of the next token; it is replaced by the command and the two
  numbers scaled. When the third token is in exponent notation the match ends after its
  mantissa: the scaled mantissa is written before the exponent that stays, which denotes
  the scaled number again (for a canvas height the DOM allows, an integer below
  \<open>2 ^ 32\<close>, the scaled mantissa is in plain notation). Everything else stays as it is:
  a command whose first number is signed, in exponent notation or not finite is not
  rewritten.
\<close>

fun absolutePath :: "real \<Rightarrow> real \<Rightarrow> tok list \<Rightarrow> tok list" where
  "absolutePath canvasWidth canvasHeight (Cmd cmd # Num x # Num y # rest) =
     (if cmd = CHR ''M'' \<or> cmd = CHR ''L''
      then Cmd cmd # number_text (x * canvasWidth) # number_text (y * canvasHeight)
             # absolutePath canvasWidth canvasHeight rest
      else Cmd cmd # absolutePath canvasWidth canvasHeight (Num x # Num y # rest))"
| "absolutePath canvasWidth canvasHeight (Cmd cmd # Num x # Sci y # rest) =
     (if cmd = CHR ''M'' \<or> cmd = CHR ''L''
      then Cmd cmd # number_text (x * canvasWidth) # Sci (y * canvasHeight)
             # absolutePath canvasWidth canvasHeight rest
      else Cmd cmd # absolutePath canvasWidth canvasHeight (Num x # Sci y # rest))"
| "absolutePath canvasWidth canvasHeight (t # rest) = t # absolutePath canvasWidth canvasHeight rest"
| "absolutePath canvasWidth canvasHeight [] = []"

definition renderSavedHighlights :: "PDFViewer \<Rightarrow> PDFViewer" where
  "renderSavedHighlights v =
     (case canvasRef v of
        None \<Rightarrow> v
      | Some (canvasWidth, canvasHeight) \<Rightarrow>
          v\<lparr>highlight_mark :=
               map (\<lambda>mark. \<lparr>svg_d = absolutePath canvasWidth canvasHeight (path_data mark),
                            svg_stroke = mark_color mark,
                            svg_stroke_width = thickness mark,
                            svg_stroke_opacity = (if opacity mark = 0 then 0.4 else opacity mark)\<rparr>)
                   (highlights v)\<rparr>)"

text \<open>The effect that repaints the overlays.\<close>

definition overlayEffect :: "PDFViewer \<Rightarrow> PDFViewer" where
  "overlayEffect v = (if pageRenderKey v > 0 then renderSavedHighlights (renderHighlights v) else v)"


section \<open>Saving a cue: the blocking page and its three dialogs\<close>

record BlockingPage =
  bp_script_id :: string
  bp_user :: "string option"
  bp_currentPage :: nat
  bp_entries :: "BlockingEntry list"
  pendingSelection :: "SelectionEvent option"

type_synonym session = "BlockingPage \<times> backend"

definition loadEntries :: "session \<Rightarrow> session" where
  "loadEntries s =
     (let (p, b) = s in
      case bp_user p of
        None \<Rightarrow> (p\<lparr>bp_entries := []\<rparr>, b)
      | Some uid \<Rightarrow>
          (p\<lparr>bp_entries := getEntriesForPage (bp_script_id p) (bp_currentPage p) uid b\<rparr>, b))"

definition suggestedIndex :: "BlockingPage \<Rightarrow> int" where
  "suggestedIndex p =
     (case map index_number (bp_entries p) of
        [] \<Rightarrow> 1
      | i # rest \<Rightarrow> fold max rest i + 1)"

definition existingIndices :: "BlockingPage \<Rightarrow> int list" where
  "existingIndices p = map index_number (bp_entries p)"

text \<open>
  What a save handler comes to: the dialog refuses the input and shows a message
  (\<open>Rejected\<close>), a server action throws (\<open>Failed\<close>), or the handler runs to its end.
\<close>

datatype DialogError = CueTextRequired | IndexBelowOne | IndexInUse int

datatype 'a outcome = Rejected DialogError | Failed error | Done 'a

text \<open>\<open>AddBlockingDialog.handleSave\<close>: \<open>Done\<close> carries the arguments of \<open>onSave\<close>.\<close>

definition AddBlockingDialog_handleSave ::
  "string \<Rightarrow> int \<Rightarrow> AnnotationType \<Rightarrow> int list \<Rightarrow> (string \<times> int \<times> AnnotationType) outcome"
where
  "AddBlockingDialog_handleSave blockingText indexNumber annotationType indices =
     (if trim_empty blockingText then Rejected CueTextRequired
      else if indexNumber < 1 then Rejected IndexBelowOne
      else if indexNumber \<in> set indices then Rejected (IndexInUse indexNumber)
      else Done (blockingText, indexNumber, annotationType))"

text \<open>\<open>BlockingPage.handleSaveNewEntry\<close>, the dialog's \<open>onSave\<close>.\<close>

definition handleSaveNewEntry ::
  "string \<Rightarrow> nat \<Rightarrow> string \<Rightarrow> int \<Rightarrow> AnnotationType \<Rightarrow> session \<Rightarrow> session outcome"
where
  "handleSaveNewEntry newId now blockingText indexNumber annotationType s =
     (let (p, b) = s in
      case (pendingSelection p, bp_user p) of
        (Some sel, Some uid) \<Rightarrow>
          (let newEntry = \<lparr>entry_id = newId,
                           script_id = bp_script_id p,
                           page_number = pageNumber sel,
                           index_number = indexNumber,
                           selection_type = selectionType sel,
                           selection_text = selectionText sel,
                           selection_box = selectionBox sel,
                           blocking_text = blockingText,
                           annotation_type = annotationType,
                           color = getAnnotationColor (Some annotationType),
                           created_at = now,
                           updated_at = now\<rparr>
           in case saveBlockingEntry newEntry uid b of
                Inl e \<Rightarrow> Failed e
              | Inr b' \<Rightarrow> Done (loadEntries (p\<lparr>pendingSelection := None\<rparr>, b')))
      | _ \<Rightarrow> Done s)"

text \<open>The add dialog as the page mounts it: \<open>existingIndices\<close> of the page, \<open>onSave\<close> above.\<close>

definition addCue ::
  "string \<Rightarrow> nat \<Rightarrow> string \<Rightarrow> int \<Rightarrow> AnnotationType \<Rightarrow> session \<Rightarrow> session outcome"
where
  "addCue newId now blockingText indexNumber annotationType s =
     (case AddBlockingDialog_handleSave blockingText indexNumber annotationType
             (existingIndices (fst s)) of
        Rejected err \<Rightarrow> Rejected err
      | Failed e \<Rightarrow> Failed e
      | Done (t, i, ty) \<Rightarrow> handleSaveNewEntry newId now t i ty s)"

text \<open>
  \<open>CuePreview.handleSave\<close>, the first edit path: the preview of \<open>entry\<close> as the page
  mounts it (\<open>existingIndices\<close> of the page, \<open>onUpdate\<close> reloads the entries).
\<close>

definition CuePreview_handleSave ::
  "BlockingEntry \<Rightarrow> string \<Rightarrow> int \<Rightarrow> AnnotationType \<Rightarrow> string \<Rightarrow> nat \<Rightarrow> session \<Rightarrow> session outcome"
where
  "CuePreview_handleSave entry uid editIndex editType editText now s =
     (let (p, b) = s in
      if editIndex \<noteq> index_number entry \<and> editIndex \<in> set (existingIndices p)
      then Rejected (IndexInUse editIndex)
      else if editIndex < 1 then Rejected IndexBelowOne
      else if trim_empty editText then Rejected CueTextRequired
      else
        (let updated = entry\<lparr>index_number := editIndex,
                              annotation_type := editType,
                              blocking_text := editText,
                              color := getAnnotationColor (Some editType),
                              updated_at := now\<rparr>
         in case saveBlockingEntry updated uid b of
              Inl e \<Rightarrow> Failed e
            | Inr b' \<Rightarrow> Done (loadEntries (p, b'))))"

text \<open>
  \<open>BlockingChart.handleSaveEdit\<close>, the second edit path. \<open>Done\<close> carries the argument
  of \<open>onUpdateEntry\<close>, or \<open>None\<close> when the text is blank and the edit is only closed.
\<close>

definition handleSaveEdit ::
  "BlockingEntry list \<Rightarrow> BlockingEntry \<Rightarrow> string \<Rightarrow> int \<Rightarrow> AnnotationType \<Rightarrow> nat
     \<Rightarrow> BlockingEntry option outcome"
where
  "handleSaveEdit chartEntries entry editText editIndex editAnnotationType now =
     (if \<not> trim_empty editText then
        (if editIndex \<noteq> index_number entry
            \<and> find (\<lambda>e. entry_id e \<noteq> entry_id entry \<and> index_number e = editIndex) chartEntries \<noteq> None
         then Rejected (IndexInUse editIndex)
         else Done (Some (entry\<lparr>blocking_text := editText,
                                 index_number := editIndex,
                                 annotation_type := editAnnotationType,
                                 color := getAnnotationColor (Some editAnnotationType),
                                 updated_at := now\<rparr>)))
      else Done None)"

text \<open>\<open>BlockingPage.handleUpdateEntry\<close>, the chart's \<open>onUpdateEntry\<close>: it reloads the entries.\<close>

definition handleUpdateEntry :: "BlockingEntry \<Rightarrow> session \<Rightarrow> session" where
  "handleUpdateEntry entry s = loadEntries s"

text \<open>The chart as the page mounts it.\<close>

definition editCueInChart ::
  "BlockingEntry \<Rightarrow> string \<Rightarrow> int \<Rightarrow> AnnotationType \<Rightarrow> nat \<Rightarrow> session \<Rightarrow> session outcome"
where
  "editCueInChart entry editText editIndex editAnnotationType now s =
     (case handleSaveEdit (bp_entries (fst s)) entry editText editIndex editAnnotationType now of
        Rejected err \<Rightarrow> Rejected err
      | Failed e \<Rightarrow> Failed e
      | Done None \<Rightarrow> Done s
      | Done (Some updated) \<Rightarrow> Done (handleUpdateEntry updated s))"


section \<open>Page rendering and the repaint signal\<close>

text \<open>
  \<open>renderPage\<close> is asynchronous: it runs up to \<open>await pdfDoc.getPage\<close>, then up to
  \<open>await renderTaskRef.current.promise\<close>, then up to \<open>await page.getTextContent\<close>,
  then to its end, and other handlers and other calls of \<open>renderPage\<close> run in between.
  Each of the four pieces is one atomic step on the state below. Of PDF.js the model has
  what the source relies on: \<open>cancel()\<close> marks a render task, the promise of a marked
  task rejects with \<open>RenderingCancelledException\<close>, the promise of any other task
  resolves (\<open>Completes\<close>) or rejects with another failure (\<open>Fails\<close>).

  \<open>getPage_waiting\<close> are the calls of \<open>renderPage\<close> that wait for their page, each with
  the viewport (width, height) its page has at its zoom level; \<open>render_tasks\<close> are the
  render tasks whose promise has not settled, each with its mark and the viewport of the
  call that started it; \<open>getTextContent_waiting\<close> are the calls that wait for the text
  of their page. \<open>textLayer_style\<close> is the size written to the style of the text layer,
  \<open>selectionCanvasRef\<close> the size of the selection canvas. The canvas, the text layer and
  the selection canvas are mounted together: \<open>canvasRef = None\<close> stands for the viewer
  before that.
\<close>

datatype task_state = InFlight | Cancelled

datatype settlement = Completes | Fails

record rendering =
  view :: PDFViewer
  renderTaskRef :: "nat option"
  render_tasks :: "(nat \<times> task_state \<times> (real \<times> real)) list"
  next_task :: nat
  getPage_waiting :: "(real \<times> real) list"
  getTextContent_waiting :: "(real \<times> real) list"
  textLayer_style :: "real \<times> real"
  selectionCanvasRef :: "real \<times> real"

definition cancel ::
  "nat \<Rightarrow> (nat \<times> task_state \<times> (real \<times> real)) list \<Rightarrow> (nat \<times> task_state \<times> (real \<times> real)) list"
where
  "cancel t ts = map (\<lambda>(i, s, viewport). if i = t then (i, Cancelled, viewport) else (i, s, viewport)) ts"

text \<open>
  The first piece: the guard, and the cancellation of the task in \<open>renderTaskRef\<close>.
\<close>

definition renderPage_begin :: "real \<times> real \<Rightarrow> rendering \<Rightarrow> rendering" where
  "renderPage_begin viewport r =
     (if canvasRef (view r) = None then r
      else r\<lparr>render_tasks := (case renderTaskRef r of
                                None \<Rightarrow> render_tasks r
                              | Some t \<Rightarrow> cancel t (render_tasks r)),
             renderTaskRef := None,
             getPage_waiting := getPage_waiting r @ [viewport]\<rparr>)"

text \<open>
  The second piece, for the \<open>k\<close>-th waiting call: the canvas takes the viewport's size and
  a new render task starts.
\<close>

definition renderPage_gotPage :: "nat \<Rightarrow> rendering \<Rightarrow> rendering" where
  "renderPage_gotPage k r =
     (if k < length (getPage_waiting r) then
        r\<lparr>view := (view r)\<lparr>canvasRef := Some (getPage_waiting r ! k)\<rparr>,
          renderTaskRef := Some (next_task r),
          render_tasks := render_tasks r @ [(next_task r, InFlight, getPage_waiting r ! k)],
          next_task := next_task r + 1,
          getPage_waiting := take k (getPage_waiting r) @ drop (Suc k) (getPage_waiting r)\<rparr>
      else r)"

text \<open>
  The third piece, when the promise of task \<open>t\<close> settles. Only a successful render
  clears \<open>renderTaskRef\<close> and increments \<open>pageRenderKey\<close>; the effect that depends on
  it then repaints the overlay. Whatever the outcome, the call goes on to ask for the text
  of its page.
\<close>

definition renderPage_settled :: "nat \<Rightarrow> settlement \<Rightarrow> rendering \<Rightarrow> rendering" where
  "renderPage_settled t s r =
     (case map_of (render_tasks r) t of
        None \<Rightarrow> r
      | Some (state, viewport) \<Rightarrow>
          (let r' = r\<lparr>render_tasks := filter (\<lambda>(i, st). i \<noteq> t) (render_tasks r),
                       getTextContent_waiting := getTextContent_waiting r @ [viewport]\<rparr>
           in if state = InFlight \<and> s = Completes
              then r'\<lparr>renderTaskRef := None,
                      view := overlayEffect ((view r)\<lparr>pageRenderKey := pageRenderKey (view r) + 1\<rparr>)\<rparr>
              else r'))"

text \<open>
  The fourth piece, for the \<open>k\<close>-th call that waits for its text: \<open>textItems\<close> are the
  items of the page that have a string, each as the element the loop makes of it (where
  the viewport puts it, as large as the browser lays it out). The text layer is emptied
  and, when some item is not blank, filled again; the selection canvas takes the
  viewport's size.
\<close>

definition renderPage_gotTextContent :: "nat \<Rightarrow> TextElement list \<Rightarrow> rendering \<Rightarrow> rendering" where
  "renderPage_gotTextContent k textItems r =
     (if k < length (getTextContent_waiting r) then
        (let viewport = getTextContent_waiting r ! k;
             hasText = (length textItems > 0
                        \<and> list_ex (\<lambda>item. \<not> trim_empty (textContent item)) textItems)
         in r\<lparr>view := (view r)\<lparr>hasTextLayer := hasText,
                               textLayer := (if hasText then textItems else [])\<rparr>,
              textLayer_style := viewport,
              selectionCanvasRef := viewport,
              getTextContent_waiting :=
                take k (getTextContent_waiting r) @ drop (Suc k) (getTextContent_waiting r)\<rparr>)
      else r)"

text \<open>
  What can happen to the viewer between two renders: the render effect calls
  \<open>renderPage\<close> (page or zoom changed), a page arrives, a render promise settles, the
  text of a page arrives, or one of the other dependencies of the overlay effect changes
  (\<open>entries\<close>, \<open>selectedEntryId\<close>, \<open>highlights\<close>), which runs that effect.
\<close>

datatype event =
    RenderPage real real
  | GotPage nat
  | Settled nat settlement
  | GotTextContent nat "TextElement list"
  | SetEntries "BlockingEntry list"
  | SelectEntry "string option"
  | SetHighlights "HighlightMark list"

fun step :: "event \<Rightarrow> rendering \<Rightarrow> rendering" where
  "step (RenderPage w h) r = renderPage_begin (w, h) r"
| "step (GotPage k) r = renderPage_gotPage k r"
| "step (Settled t s) r = renderPage_settled t s r"
| "step (GotTextContent k textItems) r = renderPage_gotTextContent k textItems r"
| "step (SetEntries es) r = r\<lparr>view := overlayEffect ((view r)\<lparr>entries := es\<rparr>)\<rparr>"
| "step (SelectEntry sel) r = r\<lparr>view := overlayEffect ((view r)\<lparr>selectedEntryId := sel\<rparr>)\<rparr>"
| "step (SetHighlights hs) r = r\<lparr>view := overlayEffect ((view r)\<lparr>highlights := hs\<rparr>)\<rparr>"

definition run :: "event list \<Rightarrow> rendering \<Rightarrow> rendering" where
  "run es r = fold step es r"


section \<open>Observers and example states\<close>

text \<open>
  The vertices an SVG renderer reads from a path of \<open>M\<close> and \<open>L\<close> commands: one for
  each command letter followed by two numbers, in any notation, up to the first token
  that is out of place.
\<close>

fun tok_value :: "tok \<Rightarrow> real option" where
  "tok_value (Num v) = Some v"
| "tok_value (Sci v) = Some v"
| "tok_value (Neg t) = map_option uminus (tok_value t)"
| "tok_value (Cmd c) = None"
| "tok_value NonFinite = None"

fun path_vertices :: "tok list \<Rightarrow> point list" where
  "path_vertices (Cmd c # a # b # rest) =
     (case (tok_value a, tok_value b) of
        (Some x, Some y) \<Rightarrow> (x, y) # path_vertices rest
      | _ \<Rightarrow> [])"
| "path_vertices ts = []"

text \<open>A drag: the pointer moves through the points \<open>ms\<close> with the button held.\<close>

definition drag :: "point list \<Rightarrow> world \<Rightarrow> world" where
  "drag ms w = fold (\<lambda>m. handleMouseMove (fst m) (snd m) 1) ms w"

text \<open>
  A viewer in draw mode on page 1, rendered once on a canvas of 800 by 1000 pixels, and an
  empty database that answers.
\<close>

definition viewer0 :: PDFViewer where
  "viewer0 = \<lparr>scriptId = ''s1'', userId = ''u1'', currentPage = 1, entries = [],
     selectedEntryId = None, canvasRef = Some (800, 1000), hasTextLayer = False,
     textLayer = [], isDrawing = False, selectionStart = None, selectionEnd = None,
     highlightMode = Draw, highlightColor = ''#FFEB3B'', highlightThickness = 5,
     highlightOpacity = 0.4, highlights = [], currentPath = [], isDrawingHighlight = False,
     highlightHistory = [], pageRenderKey = 1, blocking_annotation = [], highlight_mark = []\<rparr>"

definition backend0 :: backend where
  "backend0 = \<lparr>highlight_marks = [], blocking_entries = [], failing = False, delete_requests = []\<rparr>"

text \<open>The image of a point under the scale transform \<open>(sx, sy)\<close>.\<close>

definition scale_point :: "real \<Rightarrow> real \<Rightarrow> point \<Rightarrow> point" where
  "scale_point sx sy p = (fst p * sx, snd p * sy)"

text \<open>A cue of page 1 anchored at the unit rectangle \<open>(0.125, 0.125, 0.125, 0.125)\<close>.\<close>

definition entry0 :: BlockingEntry where
  "entry0 = \<lparr>entry_id = ''e1'', script_id = ''s1'', page_number = 1, index_number = 1,
     selection_type = SelText, selection_text = None,
     selection_box = \<lparr>box_x = 1 / 8, box_y = 1 / 8, box_width = 1 / 8, box_height = 1 / 8\<rparr>,
     blocking_text = ''Hamlet crosses downstage center'', annotation_type = Blocking,
     color = ''#DAA520'', created_at = 0, updated_at = 0\<rparr>"

text \<open>
  The margin test of \<open>renderHighlights\<close> for a cue, by itself: the value of
  \<open>isLeftHalf\<close>.
\<close>

definition isLeftHalf :: "real \<Rightarrow> BlockingEntry \<Rightarrow> bool" where
  "isLeftHalf canvasWidth entry =
     (let textX = mul64 (box_x (selection_box entry)) canvasWidth;
          textWidth = mul64 (box_width (selection_box entry)) canvasWidth;
          centerX = add64 textX (div64 textWidth 2);
          pageMidline = div64 canvasWidth 2
      in centerX < pageMidline)"

text \<open>
  A cue of page 1 whose rectangle is centred on the page: the selection from
  \<open>(130, 100)\<close>, 658 by 50 pixels, dragged on a canvas of 918 by 1188 pixels and stored
  as \<open>handleMouseUp\<close> divides it in binary64.
\<close>

definition entry_centred :: BlockingEntry where
  "entry_centred = entry0\<lparr>entry_id := ''e2'', index_number := 2,
     selection_box := \<lparr>box_x = div64 130 918, box_y = div64 100 1188,
                        box_width = div64 658 918, box_height = div64 50 1188\<rparr>\<rparr>"

text \<open>
  The pairs \<open>(px, py)\<close> the loop of \<open>handleEraseAtPoint\<close> reads from the numbers of a
  path (\<open>i += 2\<close>).
\<close>

fun stroke_points :: "real list \<Rightarrow> point list" where
  "stroke_points (px # py # rest) = (px, py) # stroke_points rest"
| "stroke_points rest = []"

text \<open>
  Two strokes of page 1 whose points lie on the straight line from \<open>(0,0)\<close> to \<open>(1,1)\<close>:
  the two end points alone, and the end points with the middle.
\<close>

definition diag2 :: HighlightMark where
  "diag2 = \<lparr>mark_id = ''d2'', mark_script_id = ''s1'', mark_page_number = 1,
     path_data = [Cmd CHR ''M'', Num 0, Num 0, Cmd CHR ''L'', Num 1, Num 1],
     mark_color = ''#FFEB3B'', thickness = 5, opacity = 0.4, mark_created_at = 1\<rparr>"

definition diag3 :: HighlightMark where
  "diag3 = \<lparr>mark_id = ''d3'', mark_script_id = ''s1'', mark_page_number = 1,
     path_data = [Cmd CHR ''M'', Num 0, Num 0, Cmd CHR ''L'', Num (1 / 2), Num (1 / 2),
                  Cmd CHR ''L'', Num 1, Num 1],
     mark_color = ''#FFEB3B'', thickness = 5, opacity = 0.4, mark_created_at = 2\<rparr>"

text \<open>
  One stroke drawn from \<open>p\<close> to \<open>q\<close>: down, one move, up. Three strokes drawn one
  after the other on the empty page, with the identifiers \<open>a\<close>, \<open>b\<close>, \<open>c\<close>.
\<close>

definition drawStroke :: "string \<Rightarrow> nat \<Rightarrow> point \<Rightarrow> point \<Rightarrow> world \<Rightarrow> world" where
  "drawStroke markId now p q w =
     (case handleMouseUp markId now
             (handleMouseMove (fst q) (snd q) 1 (handleMouseDown (fst p) (snd p) w)) of
        Inl e \<Rightarrow> w
      | Inr (w', ev) \<Rightarrow> w')"

text \<open>The user switches to the eraser.\<close>

definition eraser :: "world \<Rightarrow> world" where
  "eraser w = (let (v, b) = w in (v\<lparr>highlightMode := Erase\<rparr>, b))"

definition three_strokes :: world where
  "three_strokes =
     drawStroke ''c'' 3 (100, 300) (200, 300)
       (drawStroke ''b'' 2 (100, 200) (200, 200)
          (drawStroke ''a'' 1 (100, 100) (200, 100) (viewer0, backend0)))"

text \<open>
  A blocking page on page 1 that shows the cue \<open>entry0\<close> (index 1), stored for user \<open>u1\<close>.
\<close>

definition session0 :: session where
  "session0 =
     (\<lparr>bp_script_id = ''s1'', bp_user = Some ''u1'', bp_currentPage = 1, bp_entries = [entry0],
       pendingSelection = None\<rparr>,
      backend0\<lparr>blocking_entries := [(''u1'', entry0)]\<rparr>)"

text \<open>
  The viewer before its first render, showing the cue \<open>entry0\<close>: the two canvases
  have the size a canvas element starts with, 300 by 150 pixels.
\<close>

definition rendering0 :: rendering where
  "rendering0 = \<lparr>view = viewer0\<lparr>pageRenderKey := 0, entries := [entry0], canvasRef := Some (300, 150)\<rparr>,
     renderTaskRef = None, render_tasks = [], next_task = 0, getPage_waiting = [],
     getTextContent_waiting = [], textLayer_style = (0, 0), selectionCanvasRef = (300, 150)\<rparr>"

text \<open>
  The zoom changes while the first call of \<open>renderPage\<close> still waits for its page:
  the render effect calls \<open>renderPage\<close> a second time, for 1600 by 2000 pixels, and then
  the two pages arrive in the order of the calls.
\<close>

definition overlapping_renders :: "event list" where
  "overlapping_renders = [RenderPage 800 1000, RenderPage 1600 2000, GotPage 0, GotPage 0]"


section \<open>Rounding to binary64\<close>

text \<open>
  The two counters unfold on a numeral. With the rules \<open>binary64_eval\<close>, which unfold
  them on literal numbers only, \<open>simp\<close> computes the double nearest to a rational number.
\<close>

lemma halvings_numeral:
  "halvings (numeral k) x = (if x < 2 then 0 else halvings (pred_numeral k) (x / 2) + 1)"
  by (simp add: numeral_eq_Suc)

lemma doublings_numeral:
  "doublings (numeral k) x = (if 1 \<le> x then 0 else doublings (pred_numeral k) (x * 2) - 1)"
  by (simp add: numeral_eq_Suc)

lemma binary64_zero: "binary64 0 = 0"
  by (simp add: binary64_def)

lemma binary64_minus: "binary64 (- x) = - binary64 x"
  by (simp add: binary64_def sgn_minus)

lemmas binary64_eval =
  add64_def sub64_def mul64_def div64_def Math_pow_def parseFloat_def
  binary64_zero binary64_minus power_divide
  binary64_def [where x = "numeral a" for a]
  binary64_def [where x = "numeral a / numeral b" for a b]
  binary64_def [where x = "1 / numeral b" for b]
  binary64_def [where x = 1]
  exponent2_def [where x = "numeral a" for a]
  exponent2_def [where x = "numeral a / numeral b" for a b]
  exponent2_def [where x = "1 / numeral b" for b]
  exponent2_def [where x = 1]
  roundTiesToEven_def [where x = "numeral a" for a]
  roundTiesToEven_def [where x = "numeral a / numeral b" for a b]
  roundTiesToEven_def [where x = "1 / numeral b" for b]
  roundTiesToEven_def [where x = 1]
  halvings_numeral [where x = "numeral a" for a]
  halvings_numeral [where x = "numeral a / numeral b" for a b]
  halvings_numeral [where x = "1 / numeral b" for b]
  halvings_numeral [where x = 1]
  doublings_numeral [where x = "numeral a" for a]
  doublings_numeral [where x = "numeral a / numeral b" for a b]
  doublings_numeral [where x = "1 / numeral b" for b]
  doublings_numeral [where x = 1]

lemma halvings_eq:
  "2 ^ e \<le> x \<Longrightarrow> x < 2 ^ Suc e \<Longrightarrow> e \<le> n \<Longrightarrow> halvings n x = int e"
proof (induction n arbitrary: x e)
  case 0
  then show ?case by simp
next
  case (Suc n)
  show ?case
  proof (cases "x < 2")
    case True
    have "e = 0"
    proof (rule ccontr)
      assume "e \<noteq> 0"
      then have "(2::real) ^ 1 \<le> 2 ^ e" by (intro power_increasing) simp_all
      with Suc.prems(1) True show False by simp
    qed
    with True show ?thesis by simp
  next
    case False
    then obtain e' where e: "e = Suc e'"
      using Suc.prems(2) by (cases e) simp_all
    have "halvings n (x / 2) = int e'"
      using Suc.prems e by (intro Suc.IH) simp_all
    with False e show ?thesis by simp
  qed
qed

lemma doublings_eq:
  "1 / 2 ^ e \<le> x \<Longrightarrow> x < 2 / 2 ^ e \<Longrightarrow> e \<le> n \<Longrightarrow> doublings n x = - int e"
proof (induction n arbitrary: x e)
  case 0
  then show ?case by simp
next
  case (Suc n)
  show ?case
  proof (cases "1 \<le> x")
    case True
    have "e = 0"
    proof (rule ccontr)
      assume "e \<noteq> 0"
      then have "(2::real) ^ 1 \<le> 2 ^ e" by (intro power_increasing) simp_all
      then have "2 / 2 ^ e \<le> (1::real)" by (simp add: field_simps)
      with Suc.prems(2) True show False by simp
    qed
    with True show ?thesis by simp
  next
    case False
    then obtain e' where e: "e = Suc e'"
      using Suc.prems(1) by (cases e) simp_all
    have "doublings n (x * 2) = - int e'"
      using Suc.prems e by (intro Suc.IH) (simp_all add: field_simps)
    with False e show ?thesis by simp
  qed
qed

lemma doublings_subnormal:
  "x < 1 / 2 ^ n \<Longrightarrow> doublings n x = - int n"
proof (induction n arbitrary: x)
  case 0
  then show ?case by simp
next
  case (Suc n)
  have "(1::real) / 2 ^ Suc n \<le> 1"
    using one_le_power [of "2::real" "Suc n"] by simp
  with Suc.prems have "\<not> 1 \<le> x" by linarith
  moreover have "doublings n (x * 2) = - int n"
    using Suc.prems by (intro Suc.IH) (simp add: field_simps)
  ultimately show ?case by simp
qed

lemma halvings_le:
  "1 \<le> x \<Longrightarrow> 0 \<le> halvings n x \<and> 2 ^ nat (halvings n x) \<le> x"
proof (induction n arbitrary: x)
  case 0
  then show ?case by simp
next
  case (Suc n)
  show ?case
  proof (cases "x < 2")
    case True
    with Suc.prems show ?thesis by simp
  next
    case False
    then have "1 \<le> x / 2" by simp
    from Suc.IH [OF this] False show ?thesis
      by (simp add: nat_add_distrib field_simps)
  qed
qed

lemma exponent2_eq:
  assumes "2 powi e \<le> x" and "x < 2 powi (e + 1)" and "- 1022 \<le> e" and "e \<le> 1023"
  shows "exponent2 x = e"
proof (cases "0 \<le> e")
  case True
  then have "(1::real) \<le> 2 powi e" by simp
  with assms(1) have x: "1 \<le> x" by linarith
  have "halvings 1023 x = int (nat e)"
    using assms True by (intro halvings_eq) (simp_all add: power_int_def nat_add_distrib)
  with x True show ?thesis by (simp add: exponent2_def)
next
  case False
  define n where "n = nat (- e)"
  have e: "e = - int n" using False by (simp add: n_def)
  have p: "2 powi e = (1::real) / 2 ^ n"
    by (simp add: e power_int_minus_divide)
  have "2 powi (e + 1) = 2 powi e * (2::real)"
    by (simp add: power_int_add)
  then have q: "2 powi (e + 1) = (2::real) / 2 ^ n" by (simp add: p)
  have "(2::real) ^ 1 \<le> 2 ^ n"
    using False by (intro power_increasing) (simp_all add: n_def)
  then have "(2::real) / 2 ^ n \<le> 1" by (simp add: field_simps)
  with assms(2) q have x: "\<not> 1 \<le> x" by linarith
  have "doublings 1022 x = - int n"
    using assms p q by (intro doublings_eq) (simp_all add: n_def)
  with x e show ?thesis by (simp add: exponent2_def)
qed

lemma exponent2_subnormal:
  assumes "x < 2 powi (- 1022)"
  shows "exponent2 x = - 1022"
proof -
  have "(2::real) powi (- 1022) = 1 / 2 ^ 1022"
    by (simp add: power_int_minus_divide)
  with assms have x: "x < 1 / 2 ^ 1022" by simp
  have "(1::real) / 2 ^ 1022 \<le> 1" by simp
  with x have "\<not> 1 \<le> x" by linarith
  with doublings_subnormal [OF x] show ?thesis by (simp add: exponent2_def)
qed

lemma roundTiesToEven_error: "\<bar>of_int (roundTiesToEven x) - x\<bar> \<le> 1 / 2"
proof -
  have "of_int \<lfloor>x\<rfloor> \<le> x" "x < of_int \<lfloor>x\<rfloor> + 1" by linarith+
  then show ?thesis by (auto simp: roundTiesToEven_def)
qed

lemma roundTiesToEven_eq:
  assumes "of_int m - 1 / 2 < x" and "x < of_int m + 1 / 2"
  shows "roundTiesToEven x = m"
proof -
  have f: "\<lfloor>x\<rfloor> = m \<or> \<lfloor>x\<rfloor> = m - 1" using assms by linarith
  have "of_int \<lfloor>x\<rfloor> \<le> x" "x < of_int \<lfloor>x\<rfloor> + 1" by linarith+
  with f assms show ?thesis by (auto simp: roundTiesToEven_def)
qed

lemma binary64_error: "\<bar>binary64 x - x\<bar> \<le> 2 powi (exponent2 \<bar>x\<bar> - 53)"
proof -
  define u :: real where "u = 2 powi (exponent2 \<bar>x\<bar> - 52)"
  define r where "r = roundTiesToEven (\<bar>x\<bar> / u)"
  have u: "0 < u" by (simp add: u_def)
  have b: "binary64 x = sgn x * of_int r * u" by (simp add: binary64_def u_def r_def)
  have "(of_int r - \<bar>x\<bar> / u) * u = of_int r * u - \<bar>x\<bar>"
    using u by (simp add: algebra_simps)
  then have "sgn x * ((of_int r - \<bar>x\<bar> / u) * u) = sgn x * of_int r * u - sgn x * \<bar>x\<bar>"
    by (simp add: algebra_simps)
  then have "binary64 x - x = sgn x * ((of_int r - \<bar>x\<bar> / u) * u)"
    by (simp add: b mult_sgn_abs)
  then have "\<bar>binary64 x - x\<bar> = \<bar>sgn x\<bar> * (\<bar>of_int r - \<bar>x\<bar> / u\<bar> * u)"
    using u by (simp add: abs_mult)
  also have "\<dots> \<le> 1 * (1 / 2 * u)"
    using u roundTiesToEven_error [of "\<bar>x\<bar> / u"]
    by (intro mult_mono mult_right_mono) (simp_all add: r_def abs_sgn_eq)
  also have "\<dots> = 2 powi (exponent2 \<bar>x\<bar> - 53)"
  proof -
    have "(2::real) powi ((exponent2 \<bar>x\<bar> - 53) + 1) = 2 powi (exponent2 \<bar>x\<bar> - 53) * 2 powi 1"
      by (intro power_int_add) simp
    then have "u = 2 powi (exponent2 \<bar>x\<bar> - 53) * 2"
      by (simp add: u_def)
    then show ?thesis by simp
  qed
  finally show ?thesis .
qed

lemma doublings_le:
  "1 / 2 ^ n \<le> x \<Longrightarrow> x < 1 \<Longrightarrow> 2 powi (doublings n x) \<le> x"
proof (induction n arbitrary: x)
  case 0
  then show ?case by simp
next
  case (Suc n)
  show ?case
  proof (cases "1 \<le> x * 2")
    case True
    then have "doublings n (x * 2) = 0" by (cases n) simp_all
    with Suc.prems(2) True show ?thesis by (simp add: power_int_minus_divide)
  next
    case False
    have "2 powi (doublings n (x * 2)) \<le> x * 2"
      using Suc.prems False by (intro Suc.IH) (simp_all add: field_simps)
    moreover have "(2::real) powi ((doublings n (x * 2) - 1) + 1)
        = 2 powi (doublings n (x * 2) - 1) * 2 powi 1"
      by (intro power_int_add) simp
    ultimately show ?thesis using Suc.prems(2) by simp
  qed
qed

lemma exponent2_le: "2 powi (exponent2 x) \<le> max x (2 powi (- 1022))"
proof (cases "1 \<le> x")
  case True
  from halvings_le [OF this, of 1023]
  have "2 powi (halvings 1023 x) \<le> x" by (simp add: power_int_def)
  with True show ?thesis by (simp add: exponent2_def)
next
  case False
  show ?thesis
  proof (cases "x < 2 powi (- 1022)")
    case True
    then show ?thesis by (simp add: exponent2_subnormal)
  next
    case small: False
    have "(2::real) powi (- 1022) = 1 / 2 ^ 1022"
      by (simp add: power_int_minus_divide)
    with small have "1 / 2 ^ 1022 \<le> x" by simp
    from doublings_le [OF this] False
    have "2 powi (doublings 1022 x) \<le> x" by simp
    with False show ?thesis by (simp add: exponent2_def)
  qed
qed

lemma binary64_relative_error:
  "\<bar>binary64 x - x\<bar> \<le> max \<bar>x\<bar> (2 powi (- 1022)) / 2 ^ 53"
proof -
  have "(2::real) powi (exponent2 \<bar>x\<bar> - 53) = 2 powi (exponent2 \<bar>x\<bar>) * 2 powi (- 53)"
    using power_int_add [of "2::real" "exponent2 \<bar>x\<bar>" "- 53"] by simp
  also have "\<dots> = 2 powi (exponent2 \<bar>x\<bar>) / 2 ^ 53"
    by (simp add: power_int_minus_divide)
  also have "\<dots> \<le> max \<bar>x\<bar> (2 powi (- 1022)) / 2 ^ 53"
    using exponent2_le [of "\<bar>x\<bar>"] by (intro divide_right_mono) simp_all
  finally show ?thesis using binary64_error [of x] by linarith
qed

lemma binary64_eq:
  assumes "0 < x" and "2 ^ 52 \<le> m" and "m < 2 ^ 53" and "- 1074 \<le> k" and "k \<le> 971"
    and "(of_int m - 1 / 2) * 2 powi k < x" and "x < (of_int m + 1 / 2) * 2 powi k"
    and "2 ^ 52 * 2 powi k \<le> x"
  shows "binary64 x = of_int m * 2 powi k"
proof -
  have p: "(2::real) powi (k + 52) = 2 powi k * 2 ^ 52" "(2::real) powi (k + 52 + 1) = 2 powi k * 2 ^ 53"
    using power_int_add [of "2::real" k 52] power_int_add [of "2::real" k 53]
    by (simp_all add: add.assoc)
  have "x < (of_int m + 1 / 2) * 2 powi k" by fact
  also have "\<dots> \<le> 2 ^ 53 * 2 powi k"
  proof -
    have "m + 1 \<le> 2 ^ 53" using assms(3) by simp
    then have "real_of_int (m + 1) \<le> 2 ^ 53" by (metis of_int_le_iff of_int_numeral of_int_power)
    then show ?thesis by (intro mult_right_mono) simp_all
  qed
  finally have "x < 2 powi (k + 52 + 1)" unfolding p by (simp add: mult.commute)
  moreover have "2 powi (k + 52) \<le> x" using assms(8) unfolding p by (simp add: mult.commute)
  ultimately have e: "exponent2 x = k + 52"
    using assms(4,5) by (intro exponent2_eq) simp_all
  have "roundTiesToEven (x / 2 powi k) = m"
    using assms(6,7) by (intro roundTiesToEven_eq) (simp_all add: field_simps)
  with e assms(1) show ?thesis by (simp add: binary64_def)
qed

lemma Math_sqrt_eq:
  assumes "2 ^ 52 \<le> m" and "m < 2 ^ 53" and "- 1074 \<le> k" and "k \<le> 971"
    and "((of_int m - 1 / 2) * 2 powi k)\<^sup>2 < x" and "x < ((of_int m + 1 / 2) * 2 powi k)\<^sup>2"
    and "(2 ^ 52 * 2 powi k)\<^sup>2 \<le> x"
  shows "Math_sqrt x = of_int m * 2 powi k"
  unfolding Math_sqrt_def
proof (rule binary64_eq [OF _ assms(1-4)])
  have m: "(0::real) \<le> of_int m - 1 / 2"
  proof -
    have "(1::int) \<le> 2 ^ 52" by simp
    with assms(1) have "1 \<le> m" by linarith
    then have "(1::real) \<le> of_int m" by simp
    then show ?thesis by simp
  qed
  have "0 < (2 ^ 52 * 2 powi k :: real)\<^sup>2" by simp
  with assms(7) have x: "0 < x" by linarith
  then show "0 < sqrt x" by simp
  show "(of_int m - 1 / 2) * 2 powi k < sqrt x"
    using assms(5) m by (intro real_less_rsqrt) simp
  show "sqrt x < (of_int m + 1 / 2) * 2 powi k"
    using assms(6) m by (intro real_less_lsqrt) simp_all
  show "2 ^ 52 * 2 powi k \<le> sqrt x"
    using assms(7) by (intro real_le_rsqrt) simp
qed

text \<open>
  The error of one rounding, with its bounds as numerals: one part in \<open>2 ^ 53\<close> of the
  number, or \<open>2 ^ - 1075\<close> for a subnormal number.
\<close>

lemma binary64_close: "\<bar>binary64 x - x\<bar> \<le> \<bar>x\<bar> / 2 ^ 53 + 1 / 2 ^ 1075"
proof -
  have "(2::real) powi (- 1022) = 1 / 2 ^ 1022" by (simp add: power_int_minus_divide)
  then have "max \<bar>x\<bar> (2 powi (- 1022)) / 2 ^ 53 \<le> \<bar>x\<bar> / 2 ^ 53 + 1 / 2 ^ 1075"
    by (simp add: max_def)
  with binary64_relative_error [of x] show ?thesis by linarith
qed

lemma binary64_close_numeral: "\<bar>binary64 x - x\<bar> \<le> \<bar>x\<bar> / 9007199254740992 + 1 / 2 ^ 1075"
  using binary64_close [of x] by simp


section \<open>Coordinate round trip and the zoom scenario\<close>

lemma tok_value_number_text: "tok_value (number_text v) = Some v"
  by (simp add: number_text_def magnitude_text_def)

lemma number_text_plain: "plain v \<Longrightarrow> number_text v = Num v"
proof -
  assume v: "plain v"
  have "(0 :: real) \<le> 1 / 10 ^ 6" by simp
  with v have "0 \<le> v" unfolding plain_def by (elim disjE conjE) simp_all
  with v show ?thesis by (simp add: number_text_def magnitude_text_def)
qed

lemma number_text_nonneg: "0 \<le> v \<Longrightarrow> number_text v = Num v \<or> number_text v = Sci v"
  by (simp add: number_text_def magnitude_text_def)

lemma quotient_text_plain:
  "b \<noteq> 0 \<Longrightarrow> plain (a / b) \<Longrightarrow> quotient_text a b = Num (a / b)"
  by (simp add: quotient_text_def number_text_plain)

lemma quotient_text_nonneg:
  assumes "0 < b" and "0 \<le> a"
  shows "quotient_text a b = Num (a / b) \<or> quotient_text a b = Sci (a / b)"
proof -
  have "0 \<le> a / b" using assms by simp
  from number_text_nonneg [OF this] assms(1) show ?thesis
    by (simp add: quotient_text_def)
qed

lemma absolutePath_pathString_aux:
  assumes "0 < w" and "0 < h"
    and "\<forall>p \<in> set path. plain (fst p / w) \<and> 0 \<le> snd p"
  shows "path_vertices (absolutePath w h (concat (map (\<lambda>(index, point).
        [Cmd (if index = 0 then CHR ''M'' else CHR ''L''),
         quotient_text (fst point) w, quotient_text (snd point) h]) (enumerate n path)))) = path"
  using assms(3)
proof (induction path arbitrary: n)
  case Nil
  then show ?case by simp
next
  case (Cons p path)
  have x: "quotient_text (fst p) w = Num (fst p / w)"
    using Cons.prems assms(1) by (intro quotient_text_plain) simp_all
  have rest: "path_vertices (absolutePath w h (concat (map (\<lambda>(index, point).
        [Cmd (if index = 0 then CHR ''M'' else CHR ''L''),
         quotient_text (fst point) w, quotient_text (snd point) h]) (enumerate (Suc n) path)))) = path"
    using Cons.prems by (intro Cons.IH) simp
  from quotient_text_nonneg [OF assms(2), of "snd p"] Cons.prems
  consider "quotient_text (snd p) h = Num (snd p / h)" | "quotient_text (snd p) h = Sci (snd p / h)"
    by auto
  then show ?case
    using assms(1,2) rest by cases (simp_all add: x tok_value_number_text)
qed

text \<open>
  The round trip is exact for every stroke whose normalised \<open>x\<close> coordinates are printed in
  plain notation: \<open>x = 0\<close> or \<open>x / w \<ge> 1e-6\<close>.
\<close>

lemma roundtrip_plain:
  assumes "0 < w" and "0 < h"
    and "\<forall>p \<in> set path. plain (fst p / w) \<and> 0 \<le> snd p"
  shows "path_vertices (absolutePath w h (pathString w h path)) = path"
  unfolding pathString_def using assms by (rule absolutePath_pathString_aux)

text \<open>
  Binary floating point does not change the picture for a canvas: with any rounding \<open>fl\<close>
  of relative error at most \<open>1 / 2 ^ 53\<close> (round to nearest, binary64) applied to the
  division and to the multiplication, a coordinate \<open>p\<close> of a canvas of at most \<open>2 ^ 32\<close>
  pixels comes back within \<open>1e-6\<close>.
\<close>

lemma roundtrip_with_rounding:
  fixes fl :: "real \<Rightarrow> real" and p w :: real
  assumes fl: "\<And>a. \<bar>fl a - a\<bar> \<le> \<bar>a\<bar> / 2 ^ 53"
    and "0 < w" and "w \<le> 2 ^ 32" and "0 \<le> p" and "p \<le> w"
  shows "\<bar>fl (fl (p / w) * w) - p\<bar> \<le> 1 / 10 ^ 6"
proof -
  define u :: real where "u = 1 / 2 ^ 53"
  define q where "q = fl (p / w)"
  have u: "0 < u" by (simp add: u_def)
  have "\<bar>q - p / w\<bar> \<le> \<bar>p / w\<bar> * u"
    using fl [of "p / w"] by (simp add: q_def u_def)
  then have "\<bar>q - p / w\<bar> \<le> (p / w) * u"
    using assms(2,4) by simp
  then have "\<bar>q - p / w\<bar> * w \<le> (p / w) * u * w"
    using assms(2) by (intro mult_right_mono) simp_all
  moreover have "\<bar>q - p / w\<bar> * w = \<bar>q * w - p\<bar>"
  proof -
    have "q * w - p = (q - p / w) * w" using assms(2) by (simp add: field_simps)
    then show ?thesis using assms(2) by (simp add: abs_mult)
  qed
  moreover have "(p / w) * u * w = p * u" using assms(2) by simp
  ultimately have e1: "\<bar>q * w - p\<bar> \<le> p * u" by simp
  then have qw: "\<bar>q * w\<bar> \<le> p + p * u" using assms(4) by linarith
  have "\<bar>fl (q * w) - q * w\<bar> \<le> \<bar>q * w\<bar> * u"
    using fl [of "q * w"] by (simp add: u_def)
  also have "\<dots> \<le> (p + p * u) * u"
    using qw u by (simp add: mult_right_mono)
  finally have e2: "\<bar>fl (q * w) - q * w\<bar> \<le> (p + p * u) * u" .
  have "\<bar>fl (q * w) - p\<bar> \<le> (p + p * u) * u + p * u"
    using e1 e2 by linarith
  also have "\<dots> = p * (u * (2 + u))" by (simp add: algebra_simps)
  also have "\<dots> \<le> 2 ^ 32 * (u * (2 + u))"
    using assms(3,5) u by (intro mult_right_mono) simp_all
  also have "\<dots> \<le> 1 / 10 ^ 6" by (simp add: u_def)
  finally show ?thesis by (simp add: q_def)
qed

text \<open>
  C1 fails for a point less than a millionth of the canvas width from its left edge. On a
  canvas of 800 by 1000 pixels the stroke from \<open>(0.0004, 500)\<close> to \<open>(200, 200)\<close> is stored
  as \<open>M 5e-7 0.5 L 0.25 0.2\<close>. The regular expression of \<open>renderSavedHighlights\<close> does
  not match \<open>M 5e-7 0.5\<close>, so at the same size the first vertex is painted at
  \<open>(5e-7, 0.5)\<close>, not within \<open>1e-6\<close> of \<open>(0.0004, 500)\<close>.
\<close>

theorem C1_roundtrip_breaks_in_exponent_notation:
  "pathString 800 1000 [(1 / 2500, 500), (200, 200)]
     = [Cmd CHR ''M'', Sci (1 / 2000000), Num (1 / 2), Cmd CHR ''L'', Num (1 / 4), Num (1 / 5)]
   \<and> absolutePath 800 1000 (pathString 800 1000 [(1 / 2500, 500), (200, 200)])
     = [Cmd CHR ''M'', Sci (1 / 2000000), Num (1 / 2), Cmd CHR ''L'', Num 200, Num 200]
   \<and> map (path_vertices \<circ> svg_d) (highlight_mark (renderSavedHighlights
        (fst (drawStroke ''m1'' 7 (1 / 2500, 500) (200, 200) (viewer0, backend0)))))
     = [[(1 / 2000000, 1 / 2), (200, 200)]]"
  by (simp add: pathString_def quotient_text_def number_text_def magnitude_text_def plain_def
      drawStroke_def viewer0_def backend0_def handleMouseUp_def handleMouseMove_def
      handleMouseDown_def saveHighlightMark_def getHighlightsForPage_def
      renderSavedHighlights_def)

lemma upsert_mem: "r \<in> set (upsert key r rows)"
  by (induction rows) auto

lemma saved_mark_listed:
  assumes "\<not> failing b"
  shows "mark \<in> set (getHighlightsForPage (mark_script_id mark) (mark_page_number mark) u
                  (b\<lparr>highlight_marks := upsert (mark_id \<circ> snd) (u, mark) (highlight_marks b)\<rparr>))"
proof -
  have "(u, mark) \<in> set (upsert (mark_id \<circ> snd) (u, mark) (highlight_marks b))"
    by (rule upsert_mem)
  then show ?thesis using assms
    by (force simp: getHighlightsForPage_def)
qed

text \<open>
  C2. In draw mode on a canvas of 800 by 1000 pixels, with the database answering, the
  gesture down at (100,100), move to (200,200), up stores a stroke whose path is
  \<open>M 0.125 0.1 L 0.25 0.2\<close>; once the canvas is 1600 by 2000 pixels,
  \<open>renderSavedHighlights\<close> paints that stroke as \<open>M 200 200 L 400 400\<close>.
\<close>

theorem C2_ink_stroke_zoom:
  assumes "canvasRef v = Some (800, 1000)" and "highlightMode v = Draw" and "\<not> failing b"
  shows "\<exists>v' b' i.
           handleMouseUp markId now (handleMouseMove 200 200 1 (handleMouseDown 100 100 (v, b)))
             = Inr ((v', b'), None)
         \<and> i < length (highlights v')
         \<and> mark_id (highlights v' ! i) = markId
         \<and> path_data (highlights v' ! i)
             = [Cmd CHR ''M'', Num (1 / 8), Num (1 / 10), Cmd CHR ''L'', Num (1 / 4), Num (1 / 5)]
         \<and> svg_d (highlight_mark (renderSavedHighlights (v'\<lparr>canvasRef := Some (1600, 2000)\<rparr>)) ! i)
             = [Cmd CHR ''M'', Num 200, Num 200, Cmd CHR ''L'', Num 400, Num 400]"
proof -
  define mark where "mark = \<lparr>mark_id = markId, mark_script_id = scriptId v,
      mark_page_number = currentPage v,
      path_data = [Cmd CHR ''M'', Num (1 / 8), Num (1 / 10), Cmd CHR ''L'', Num (1 / 4), Num (1 / 5)],
      mark_color = highlightColor v, thickness = highlightThickness v,
      opacity = highlightOpacity v, mark_created_at = now\<rparr>"
  define b' where "b' = b\<lparr>highlight_marks := upsert (mark_id \<circ> snd) (userId v, mark) (highlight_marks b)\<rparr>"
  define hs where "hs = getHighlightsForPage (scriptId v) (currentPage v) (userId v) b'"
  define v' where "v' = v\<lparr>isDrawingHighlight := False, currentPath := [],
      highlightHistory := highlightHistory v @ [markId], highlights := hs\<rparr>"
  have up: "handleMouseUp markId now (handleMouseMove 200 200 1 (handleMouseDown 100 100 (v, b)))
              = Inr ((v', b'), None)"
    using assms
    by (simp add: handleMouseUp_def handleMouseMove_def handleMouseDown_def pathString_def
        quotient_text_def number_text_def magnitude_text_def plain_def
        saveHighlightMark_def v'_def b'_def hs_def mark_def)
  have "mark \<in> set hs"
    using saved_mark_listed [OF assms(3), of mark "userId v"]
    by (simp add: hs_def b'_def mark_def)
  then obtain i where i: "i < length hs" "hs ! i = mark"
    by (auto simp: in_set_conv_nth)
  have "svg_d (highlight_mark (renderSavedHighlights (v'\<lparr>canvasRef := Some (1600, 2000)\<rparr>)) ! i)
          = absolutePath 1600 2000 (path_data mark)"
    using i by (simp add: renderSavedHighlights_def v'_def)
  also have "\<dots> = [Cmd CHR ''M'', Num 200, Num 200, Cmd CHR ''L'', Num 400, Num 400]"
    by (simp add: mark_def number_text_def magnitude_text_def plain_def)
  finally show ?thesis
    using up i by (intro exI [of _ v'] exI [of _ b'] exI [of _ i]) (simp add: v'_def mark_def)
qed

theorem C2_ink_stroke_zoom_witness:
  "map svg_d (highlight_mark (renderSavedHighlights
      ((fst (fst (projr (handleMouseUp ''m1'' 7
          (handleMouseMove 200 200 1 (handleMouseDown 100 100 (viewer0, backend0)))))))
        \<lparr>canvasRef := Some (1600, 2000)\<rparr>)))
   = [[Cmd CHR ''M'', Num 200, Num 200, Cmd CHR ''L'', Num 400, Num 400]]"
  using C2_ink_stroke_zoom [of viewer0 backend0 "''m1''" 7]
  by (simp add: viewer0_def backend0_def handleMouseUp_def handleMouseMove_def handleMouseDown_def
      pathString_def quotient_text_def number_text_def magnitude_text_def plain_def
      saveHighlightMark_def getHighlightsForPage_def renderSavedHighlights_def)


section \<open>Rectangular selection\<close>

lemma selection_up:
  assumes "isDrawing v" and "selectionStart v = Some p" and "selectionEnd v = Some q"
    and "highlightMode v = Off" and "canvasRef v = Some (canvasWidth, canvasHeight)"
  shows "handleMouseUp markId now (v, b) =
    Inr ((v\<lparr>isDrawing := False, selectionStart := None, selectionEnd := None\<rparr>, b),
         Some \<lparr>pageNumber = currentPage v,
               selectionBox = \<lparr>box_x = min (fst p) (fst q) / canvasWidth,
                                box_y = min (snd p) (snd q) / canvasHeight,
                                box_width = (max (fst p) (fst q) - min (fst p) (fst q)) / canvasWidth,
                                box_height = (max (snd p) (snd q) - min (snd p) (snd q)) / canvasHeight\<rparr>,
               selectionText =
                 (if join '' '' (if hasTextLayer v
                       then textsInSelection (min (fst p) (fst q)) (min (snd p) (snd q))
                              (max (fst p) (fst q)) (max (snd p) (snd q)) (textLayer v) [] []
                       else []) = [] then None
                  else Some (join '' '' (if hasTextLayer v
                       then textsInSelection (min (fst p) (fst q)) (min (snd p) (snd q))
                              (max (fst p) (fst q)) (max (snd p) (snd q)) (textLayer v) [] []
                       else []))),
               selectionType = SelText\<rparr>)"
  using assms by (simp add: handleMouseUp_def Let_def)

lemma drag_selecting:
  assumes "isDrawing v" and "highlightMode v = Off" and "canvasRef v = Some c"
  shows "drag ms (v, b) =
           (v\<lparr>selectionEnd := (if ms = [] then selectionEnd v else Some (last ms))\<rparr>, b)"
  using assms
proof (induction ms arbitrary: v)
  case Nil
  then show ?case by (simp add: drag_def)
next
  case (Cons m ms)
  have "drag (m # ms) (v, b) = drag ms (v\<lparr>selectionEnd := Some m\<rparr>, b)"
    using Cons.prems by (simp add: drag_def handleMouseMove_def)
  also have "\<dots> = (v\<lparr>selectionEnd := Some m\<rparr>
      \<lparr>selectionEnd := (if ms = [] then selectionEnd (v\<lparr>selectionEnd := Some m\<rparr>) else Some (last ms))\<rparr>, b)"
    using Cons.prems by (intro Cons.IH) simp_all
  finally show ?case by simp
qed

text \<open>
  C8. In selection mode on a canvas of positive size, a drag that starts at \<open>(x, y)\<close> and
  ends there (with no move at all, or with \<open>(x, y)\<close> as its last position) still hands a
  selection to \<open>onClickComplete\<close>; its region is
  \<open>{x: x / width, y: y / height, width: 0, height: 0}\<close>. For \<open>(50, 50)\<close> on 800 by
  1000 pixels that is \<open>{x: 0.0625, y: 0.05, width: 0, height: 0}\<close>.
\<close>

theorem C8_degenerate_selection:
  assumes "highlightMode v = Off" and "canvasRef v = Some (canvasWidth, canvasHeight)"
    and "0 < canvasWidth" and "0 < canvasHeight"
    and "ms = [] \<or> last ms = (x, y)"
  shows "\<exists>v' ev.
           handleMouseUp markId now (drag ms (handleMouseDown x y (v, b))) = Inr ((v', b), Some ev)
         \<and> selectionBox ev
             = \<lparr>box_x = x / canvasWidth, box_y = y / canvasHeight, box_width = 0, box_height = 0\<rparr>
         \<and> pageNumber ev = currentPage v"
proof -
  define v0 where "v0 = v\<lparr>isDrawing := True, selectionStart := Some (x, y), selectionEnd := Some (x, y)\<rparr>"
  have down: "handleMouseDown x y (v, b) = (v0, b)"
    using assms(1,2) by (simp add: handleMouseDown_def v0_def)
  have "isDrawing v0" "highlightMode v0 = Off" "canvasRef v0 = Some (canvasWidth, canvasHeight)"
    using assms(1,2) by (simp_all add: v0_def)
  from drag_selecting [OF this, of ms b] assms(5)
  have "drag ms (v0, b) = (v0, b)"
    by (auto simp: v0_def)
  moreover have "isDrawing v0" "selectionStart v0 = Some (x, y)" "selectionEnd v0 = Some (x, y)"
    "highlightMode v0 = Off" "canvasRef v0 = Some (canvasWidth, canvasHeight)"
    using assms(1,2) by (simp_all add: v0_def)
  ultimately show ?thesis
    using selection_up [of v0 "(x, y)" "(x, y)" canvasWidth canvasHeight markId now b] down
    by (simp add: v0_def)
qed

theorem C8_degenerate_selection_witness:
  "map_option selectionBox (snd (projr (handleMouseUp ''m1'' 7
       (drag [(60, 70), (50, 50)] (handleMouseDown 50 50 (viewer0\<lparr>highlightMode := Off\<rparr>, backend0))))))
   = Some \<lparr>box_x = 0.0625, box_y = 0.05, box_width = 0, box_height = 0\<rparr>"
  using C8_degenerate_selection [of "viewer0\<lparr>highlightMode := Off\<rparr>" 800 1000
      "[(60, 70), (50, 50)]" 50 50 "''m1''" 7 backend0]
  by (auto simp add: viewer0_def)



section \<open>Connector and badge geometry\<close>

lemma renderAnnotation_points:
  "polyline_points (renderAnnotation W H sel entry) =
     (if add64 (mul64 (box_x (selection_box entry)) W)
               (div64 (mul64 (box_width (selection_box entry)) W) 2) < div64 W 2
      then [(add64 (mul64 (box_x (selection_box entry)) W) (mul64 (box_width (selection_box entry)) W),
               add64 (mul64 (box_y (selection_box entry)) H) (mul64 (box_height (selection_box entry)) H)),
            (add64 (add64 (mul64 (box_x (selection_box entry)) W)
                          (mul64 (box_width (selection_box entry)) W)) 10,
               add64 (mul64 (box_y (selection_box entry)) H) (mul64 (box_height (selection_box entry)) H)),
            (20, add64 (mul64 (box_y (selection_box entry)) H) (mul64 (box_height (selection_box entry)) H))]
      else [(mul64 (box_x (selection_box entry)) W,
               add64 (mul64 (box_y (selection_box entry)) H) (mul64 (box_height (selection_box entry)) H)),
            (sub64 (mul64 (box_x (selection_box entry)) W) 10,
               add64 (mul64 (box_y (selection_box entry)) H) (mul64 (box_height (selection_box entry)) H)),
            (sub64 W 20,
               add64 (mul64 (box_y (selection_box entry)) H) (mul64 (box_height (selection_box entry)) H))])"
  by (simp add: renderAnnotation_def Let_def)

lemma isLeftHalf_test:
  "isLeftHalf W entry =
     (add64 (mul64 (box_x (selection_box entry)) W)
            (div64 (mul64 (box_width (selection_box entry)) W) 2) < div64 W 2)"
  by (simp add: isLeftHalf_def Let_def)

lemma renderAnnotation_circle:
  "circle_cx (renderAnnotation W H sel entry) = (if isLeftHalf W entry then 20 else sub64 W 20)"
  "circle_cy (renderAnnotation W H sel entry) =
     sub64 (add64 (mul64 (box_y (selection_box entry)) H) (mul64 (box_height (selection_box entry)) H)) 15"
  "circle_r (renderAnnotation W H sel entry) = 12"
  by (simp_all add: renderAnnotation_def isLeftHalf_test Let_def)

text \<open>
  The cue \<open>entry0\<close> on 800 by 1000 and on 1600 by 2000 pixels: every number is an integer,
  nothing is rounded.
\<close>

lemma entry0_composed:
  "polyline_points (renderAnnotation 800 1000 sel entry0) = [(200, 250), (210, 250), (20, 250)]"
  "polyline_points (renderAnnotation 1600 2000 sel entry0) = [(400, 500), (410, 500), (20, 500)]"
  "circle_cx (renderAnnotation 800 1000 sel entry0) = 20"
  "circle_cy (renderAnnotation 800 1000 sel entry0) = 235"
  "circle_cx (renderAnnotation 1600 2000 sel entry0) = 20"
  "circle_cy (renderAnnotation 1600 2000 sel entry0) = 485"
  "page_number entry0 = 1"
  by (simp_all add: renderAnnotation_points renderAnnotation_circle isLeftHalf_test entry0_def
      binary64_eval)

text \<open>
  The margin test is made on rounded numbers, at the size at hand. The rectangle of
  \<open>entry_centred\<close> has its centre on the midline; as stored, in binary64, the centre is
  \<open>2 ^ - 55\<close> left of it. On the canvas of 918 pixels the rectangle was drawn on, the
  test finds centre and midline equal (459 and 459) and the connector goes to the right
  margin; on 765 pixels the centre comes out just below the midline (382.49999999999994
  and 382.5) and the connector goes to the left margin.
\<close>

lemma margin_side_changes_with_size:
  "box_x (selection_box entry_centred) + box_width (selection_box entry_centred) / 2
     = 1 / 2 - 1 / 2 ^ 55"
  "\<not> isLeftHalf 918 entry_centred"
  "isLeftHalf 765 entry_centred"
  "polyline_points (renderAnnotation 918 1188 sel entry_centred)
     = [(130, 150), (120, 150), (898, 150)]"
  "fst (polyline_points (renderAnnotation 765 990 sel entry_centred) ! 2) = 20"
  by (simp_all add: renderAnnotation_points isLeftHalf_test entry_centred_def entry0_def
      binary64_eval)

text \<open>
  The same cue on 765 by 990 pixels: the bottom edge of its rectangle, 150 on 1188 pixels,
  is painted at 125.00000000000001, one unit in the last place above its image 125 under
  the scale transform.
\<close>

lemma bottom_edge_is_rounded:
  "snd (polyline_points (renderAnnotation 765 990 sel entry_centred) ! 0) = 125 + 1 / 2 ^ 46"
  by (simp add: renderAnnotation_points entry_centred_def entry0_def binary64_eval)

text \<open>
  C3, as stated, fails: the cue anchored at \<open>(0.125, 0.125, 0.125, 0.125)\<close> composed at
  800 by 1000 and at 1600 by 2000 pixels. The scale transform \<open>(2, 2)\<close> takes the first
  connector to \<open>(400,500) (420,500) (40,500)\<close> and the badge to \<open>(40, 470)\<close>; the
  second composition has \<open>(400,500) (410,500) (20,500)\<close> and \<open>(20, 485)\<close>. And the
  cue centred on the page, composed at 918 by 1188 and at 765 by 990 pixels: its
  connector ends at the right margin at the first size and at the left margin at the
  second, and its \<open>y\<close>, 150 at the first size, is 125.00000000000001 at the second,
  not the image 125.
\<close>

theorem C3_zoom_invariance_counterexample:
  "polyline_points (renderAnnotation 1600 2000 None entry0) = [(400, 500), (410, 500), (20, 500)]
   \<and> map (scale_point (1600 / 800) (2000 / 1000)) (polyline_points (renderAnnotation 800 1000 None entry0))
       = [(400, 500), (420, 500), (40, 500)]
   \<and> (circle_cx (renderAnnotation 1600 2000 None entry0),
       circle_cy (renderAnnotation 1600 2000 None entry0)) = (20, 485)
   \<and> scale_point (1600 / 800) (2000 / 1000)
        (circle_cx (renderAnnotation 800 1000 None entry0),
         circle_cy (renderAnnotation 800 1000 None entry0)) = (40, 470)
   \<and> polyline_points (renderAnnotation 1600 2000 None entry0)
       \<noteq> map (scale_point (1600 / 800) (2000 / 1000)) (polyline_points (renderAnnotation 800 1000 None entry0))
   \<and> polyline_points (renderAnnotation 918 1188 None entry_centred)
       = [(130, 150), (120, 150), (898, 150)]
   \<and> fst (polyline_points (renderAnnotation 765 990 None entry_centred) ! 2) = 20
   \<and> snd (scale_point (765 / 918) (990 / 1188)
          (polyline_points (renderAnnotation 918 1188 None entry_centred) ! 0)) = 125
   \<and> snd (polyline_points (renderAnnotation 765 990 None entry_centred) ! 0) = 125 + 1 / 2 ^ 46"
  by (simp add: entry0_composed margin_side_changes_with_size bottom_edge_is_rounded
      scale_point_def)

text \<open>
  How far rounding can move a coordinate: a rounded number is within one part in
  \<open>2 ^ 53\<close> of the exact one (or within \<open>2 ^ - 1075\<close>, for a subnormal number), so
  the edges of a rectangle inside the page, scaled to a canvas \<open>W\<close> pixels wide, are
  within \<open>W / 2 ^ 51\<close> pixels of their exact places, and the margin test agrees with
  the exact comparison unless the centre is within \<open>W / 2 ^ 50\<close> pixels of the midline.
\<close>

lemma scaled_sum_close:
  assumes "0 \<le> a" and "0 \<le> b" and "a + b \<le> W" and "1 \<le> W"
  shows "\<bar>add64 (binary64 a) (binary64 b) - (a + b)\<bar> \<le> W / 2 ^ 51"
proof -
  define e :: real where "e = 1 / 2 ^ 1075"
  define fa fb s where "fa = binary64 a" and "fb = binary64 b" and "s = binary64 (fa + fb)"
  have e: "0 \<le> e" "e \<le> 1 / 144115188075855872" by (simp_all add: e_def)
  have a: "\<bar>fa - a\<bar> \<le> a / 9007199254740992 + e"
    using binary64_close_numeral [of a] assms(1) by (simp add: e_def fa_def)
  have b: "\<bar>fb - b\<bar> \<le> b / 9007199254740992 + e"
    using binary64_close_numeral [of b] assms(2) by (simp add: e_def fb_def)
  have s: "\<bar>s - (fa + fb)\<bar> \<le> \<bar>fa + fb\<bar> / 9007199254740992 + e"
    using binary64_close_numeral [of "fa + fb"] by (simp add: e_def s_def)
  have ab: "\<bar>fa + fb - (a + b)\<bar> \<le> W / 9007199254740992 + 2 * e"
    using a b assms by linarith
  have "\<bar>fa + fb\<bar> \<le> 2 * W" using ab assms e by linarith
  then have "\<bar>fa + fb\<bar> / 9007199254740992 \<le> 2 * W / 9007199254740992" by simp
  with s have "\<bar>s - (fa + fb)\<bar> \<le> 2 * W / 9007199254740992 + e" by linarith
  with ab have "\<bar>s - (a + b)\<bar> \<le> 3 * W / 9007199254740992 + 3 * e" by linarith
  with e assms(4) have "\<bar>s - (a + b)\<bar> \<le> W / 2251799813685248" by linarith
  then show ?thesis by (simp add: add64_def s_def fa_def fb_def)
qed

lemma scaled_close:
  assumes "0 \<le> a" and "a \<le> W" and "1 \<le> W"
  shows "\<bar>binary64 a - a\<bar> \<le> W / 2 ^ 51"
proof -
  have "\<bar>binary64 a - a\<bar> \<le> a / 9007199254740992 + 1 / 2 ^ 1075"
    using binary64_close_numeral [of a] assms(1) by simp
  moreover have "(1::real) / 2 ^ 1075 \<le> 1 / 9007199254740992" by simp
  ultimately have "\<bar>binary64 a - a\<bar> \<le> W / 2251799813685248" using assms by linarith
  then show ?thesis by simp
qed

lemma left_of_midline:
  assumes "0 \<le> a" and "0 \<le> b" and "a + b / 2 \<le> W / 2 - W / 2 ^ 50" and "1 \<le> W"
  shows "add64 (binary64 a) (div64 (binary64 b) 2) < div64 W 2"
proof -
  define e :: real where "e = 1 / 2 ^ 1075"
  define fa fb h c m where "fa = binary64 a" and "fb = binary64 b" and "h = binary64 (fb / 2)"
    and "c = binary64 (fa + h)" and "m = binary64 (W / 2)"
  have e: "0 \<le> e" "e \<le> 1 / 144115188075855872" by (simp_all add: e_def)
  have w: "W / 2 ^ 50 = W / 1125899906842624" by simp
  have a: "\<bar>fa - a\<bar> \<le> a / 9007199254740992 + e"
    using binary64_close_numeral [of a] assms(1) by (simp add: e_def fa_def)
  have b: "\<bar>fb - b\<bar> \<le> b / 9007199254740992 + e"
    using binary64_close_numeral [of b] assms(2) by (simp add: e_def fb_def)
  have h: "\<bar>h - fb / 2\<bar> \<le> \<bar>fb / 2\<bar> / 9007199254740992 + e"
    using binary64_close_numeral [of "fb / 2"] by (simp add: e_def h_def)
  have c: "\<bar>c - (fa + h)\<bar> \<le> \<bar>fa + h\<bar> / 9007199254740992 + e"
    using binary64_close_numeral [of "fa + h"] by (simp add: e_def c_def)
  have m: "\<bar>m - W / 2\<bar> \<le> W / 2 / 9007199254740992 + e"
    using binary64_close_numeral [of "W / 2"] assms(4) by (simp add: e_def m_def)
  have ab: "a \<le> W / 2" "b \<le> W" using assms w by linarith+
  have fb: "\<bar>fb\<bar> \<le> 2 * W" using b ab assms e by linarith
  then have "\<bar>fb / 2\<bar> / 9007199254740992 \<le> W / 9007199254740992" by simp
  with h have h': "\<bar>h - fb / 2\<bar> \<le> W / 9007199254740992 + e" by linarith
  have "\<bar>fa + h\<bar> \<le> W" using a b h' ab assms e w by linarith
  then have "\<bar>fa + h\<bar> / 9007199254740992 \<le> W / 9007199254740992" by simp
  with c have c': "\<bar>c - (fa + h)\<bar> \<le> W / 9007199254740992 + e" by linarith
  have "c \<le> a + b / 2 + 3 * W / 9007199254740992 + 4 * e"
    using a b h' c' ab assms(1,2) e by linarith
  moreover have "W / 2 - W / 9007199254740992 - e \<le> m" using m assms(4) by linarith
  ultimately have "c < m" using assms(3,4) w e by linarith
  then show ?thesis by (simp add: add64_def div64_def c_def m_def h_def fa_def fb_def)
qed


lemma right_of_midline:
  assumes "0 \<le> a" and "0 \<le> b" and "a + b \<le> W" and "W / 2 + W / 2 ^ 50 \<le> a + b / 2" and "1 \<le> W"
  shows "\<not> add64 (binary64 a) (div64 (binary64 b) 2) < div64 W 2"
proof -
  define e :: real where "e = 1 / 2 ^ 1075"
  define fa fb h c m where "fa = binary64 a" and "fb = binary64 b" and "h = binary64 (fb / 2)"
    and "c = binary64 (fa + h)" and "m = binary64 (W / 2)"
  have e: "0 \<le> e" "e \<le> 1 / 144115188075855872" by (simp_all add: e_def)
  have w: "W / 2 ^ 50 = W / 1125899906842624" by simp
  have a: "\<bar>fa - a\<bar> \<le> a / 9007199254740992 + e"
    using binary64_close_numeral [of a] assms(1) by (simp add: e_def fa_def)
  have b: "\<bar>fb - b\<bar> \<le> b / 9007199254740992 + e"
    using binary64_close_numeral [of b] assms(2) by (simp add: e_def fb_def)
  have h: "\<bar>h - fb / 2\<bar> \<le> \<bar>fb / 2\<bar> / 9007199254740992 + e"
    using binary64_close_numeral [of "fb / 2"] by (simp add: e_def h_def)
  have c: "\<bar>c - (fa + h)\<bar> \<le> \<bar>fa + h\<bar> / 9007199254740992 + e"
    using binary64_close_numeral [of "fa + h"] by (simp add: e_def c_def)
  have m: "\<bar>m - W / 2\<bar> \<le> W / 2 / 9007199254740992 + e"
    using binary64_close_numeral [of "W / 2"] assms(5) by (simp add: e_def m_def)
  have ab: "a \<le> W" "b \<le> W" using assms by linarith+
  have fb: "\<bar>fb\<bar> \<le> 2 * W" using b ab assms e by linarith
  then have "\<bar>fb / 2\<bar> / 9007199254740992 \<le> W / 9007199254740992" by simp
  with h have h': "\<bar>h - fb / 2\<bar> \<le> W / 9007199254740992 + e" by linarith
  have "\<bar>fa + h\<bar> \<le> 2 * W" using a b h' ab assms e by linarith
  then have "\<bar>fa + h\<bar> / 9007199254740992 \<le> 2 * W / 9007199254740992" by simp
  with c have c': "\<bar>c - (fa + h)\<bar> \<le> 2 * W / 9007199254740992 + e" by linarith
  have "a + b / 2 - 5 * W / 9007199254740992 - 4 * e \<le> c"
    using a b h' c' ab assms(1,2) e by linarith
  moreover have "m \<le> W / 2 + W / 9007199254740992 + e" using m assms(5) by linarith
  ultimately have "m < c" using assms(4,5) w e by linarith
  then show ?thesis by (simp add: add64_def div64_def c_def m_def h_def fa_def fb_def)
qed

text \<open>
  C3, amended. For a cue anchored at a rectangle \<open>R\<close> inside the page and a canvas of at
  least one pixel each way: the connector is horizontal; it starts on the edge of \<open>R\<close>
  scaled to the canvas, \<open>(R.x + R.width) * W\<close> for the left margin and \<open>R.x * W\<close> for the
  right margin, at \<open>y = (R.y + R.height) * H\<close>, each within \<open>W / 2 ^ 51\<close> and
  \<open>H / 2 ^ 51\<close> pixels (binary64 rounding). The margin is the left one whenever the
  centre of \<open>R\<close> is at least \<open>2 ^ - 50\<close> left of the middle of the page and the right one
  whenever it is at least \<open>2 ^ - 50\<close> right of it, at every size. The other positions are
  pixel offsets that do not scale: the offset point is 10 pixels from the start point, the
  end point at \<open>x = 20\<close> or \<open>x = W - 20\<close>, the badge centre 15 pixels above the end
  point, the badge radius 12.
\<close>

theorem C3_zoom_invariance_amended:
  assumes "0 \<le> box_x (selection_box entry)" and "0 \<le> box_width (selection_box entry)"
    and "box_x (selection_box entry) + box_width (selection_box entry) \<le> 1"
    and "0 \<le> box_y (selection_box entry)" and "0 \<le> box_height (selection_box entry)"
    and "box_y (selection_box entry) + box_height (selection_box entry) \<le> 1"
    and "1 \<le> W" and "1 \<le> H"
  shows "(let a = renderAnnotation W H sel entry;
              p = polyline_points a
          in length p = 3
           \<and> snd (p ! 1) = snd (p ! 0) \<and> snd (p ! 2) = snd (p ! 0)
           \<and> \<bar>snd (p ! 0) - (box_y (selection_box entry) + box_height (selection_box entry)) * H\<bar>
                \<le> H / 2 ^ 51
           \<and> (if isLeftHalf W entry
                then \<bar>fst (p ! 0) - (box_x (selection_box entry) + box_width (selection_box entry)) * W\<bar>
                       \<le> W / 2 ^ 51
                     \<and> fst (p ! 1) = add64 (fst (p ! 0)) 10 \<and> fst (p ! 2) = 20
                else \<bar>fst (p ! 0) - box_x (selection_box entry) * W\<bar> \<le> W / 2 ^ 51
                     \<and> fst (p ! 1) = sub64 (fst (p ! 0)) 10 \<and> fst (p ! 2) = sub64 W 20)
           \<and> (box_x (selection_box entry) + box_width (selection_box entry) / 2 \<le> 1 / 2 - 1 / 2 ^ 50
                \<longrightarrow> isLeftHalf W entry)
           \<and> (1 / 2 + 1 / 2 ^ 50 \<le> box_x (selection_box entry) + box_width (selection_box entry) / 2
                \<longrightarrow> \<not> isLeftHalf W entry)
           \<and> circle_cx a = fst (p ! 2) \<and> circle_cy a = sub64 (snd (p ! 2)) 15 \<and> circle_r a = 12)"
proof -
  define bx bw where "bx = box_x (selection_box entry)" and "bw = box_width (selection_box entry)"
  define bh where "bh = box_height (selection_box entry)"
  define bt where "bt = box_y (selection_box entry)"
  have W: "0 < W" and H: "0 < H" using assms(7,8) by simp_all
  have x: "0 \<le> bx * W" "0 \<le> bw * W" "bx * W + bw * W \<le> W" "bx * W \<le> W"
  proof -
    show "0 \<le> bx * W" "0 \<le> bw * W" using assms(1,2) W by (simp_all add: bx_def bw_def)
    have "(bx + bw) * W \<le> 1 * W"
      using assms(3) W unfolding bx_def bw_def by (intro mult_right_mono) simp_all
    then show "bx * W + bw * W \<le> W" by (simp add: algebra_simps)
    with \<open>0 \<le> bw * W\<close> show "bx * W \<le> W" by linarith
  qed
  have y: "0 \<le> bt * H" "0 \<le> bh * H" "bt * H + bh * H \<le> H"
  proof -
    show "0 \<le> bt * H" "0 \<le> bh * H" using assms(4,5) H by (simp_all add: bt_def bh_def)
    have "(bt + bh) * H \<le> 1 * H"
      using assms(6) H unfolding bt_def bh_def by (intro mult_right_mono) simp_all
    then show "bt * H + bh * H \<le> H" by (simp add: algebra_simps)
  qed
  have start_left: "\<bar>add64 (mul64 bx W) (mul64 bw W) - (bx + bw) * W\<bar> \<le> W / 2 ^ 51"
    using scaled_sum_close [OF x(1,2,3) assms(7)] by (simp add: mul64_def algebra_simps)
  have start_right: "\<bar>mul64 bx W - bx * W\<bar> \<le> W / 2 ^ 51"
    using scaled_close [OF x(1,4) assms(7)] by (simp add: mul64_def)
  have line: "\<bar>add64 (mul64 bt H) (mul64 bh H) - (bt + bh) * H\<bar> \<le> H / 2 ^ 51"
    using scaled_sum_close [OF y assms(8)] by (simp add: mul64_def algebra_simps)
  have left: "isLeftHalf W entry" if "bx + bw / 2 \<le> 1 / 2 - 1 / 2 ^ 50"
  proof -
    have "(bx + bw / 2) * W \<le> (1 / 2 - 1 / 2 ^ 50) * W"
      using that W by (intro mult_right_mono) simp_all
    then have "bx * W + bw * W / 2 \<le> W / 2 - W / 2 ^ 50" by (simp add: algebra_simps)
    from left_of_midline [OF x(1,2) this assms(7)] show ?thesis
      by (simp add: isLeftHalf_test mul64_def bx_def bw_def)
  qed
  have right: "\<not> isLeftHalf W entry" if "1 / 2 + 1 / 2 ^ 50 \<le> bx + bw / 2"
  proof -
    have "(1 / 2 + 1 / 2 ^ 50) * W \<le> (bx + bw / 2) * W"
      using that W by (intro mult_right_mono) simp_all
    then have "W / 2 + W / 2 ^ 50 \<le> bx * W + bw * W / 2" by (simp add: algebra_simps)
    from right_of_midline [OF x(1,2,3) this assms(7)] show ?thesis
      by (simp add: isLeftHalf_test mul64_def bx_def bw_def)
  qed
  show ?thesis
    using start_left start_right line left right
    by (simp add: Let_def renderAnnotation_points renderAnnotation_circle isLeftHalf_test
        bx_def bw_def bh_def bt_def)
qed

theorem C3_zoom_invariance_amended_witness:
  "polyline_points (renderAnnotation 800 1000 None entry0) = [(200, 250), (210, 250), (20, 250)]
   \<and> polyline_points (renderAnnotation 1600 2000 None entry0) = [(400, 500), (410, 500), (20, 500)]
   \<and> \<bar>fst (polyline_points (renderAnnotation 800 1000 None entry0) ! 0) - (1 / 8 + 1 / 8) * 800\<bar>
        \<le> 800 / 2 ^ 51
   \<and> \<bar>fst (polyline_points (renderAnnotation 1600 2000 None entry0) ! 0) - (1 / 8 + 1 / 8) * 1600\<bar>
        \<le> 1600 / 2 ^ 51
   \<and> isLeftHalf 800 entry0 \<and> isLeftHalf 1600 entry0"
  using C3_zoom_invariance_amended [of entry0 800 1000 None]
    C3_zoom_invariance_amended [of entry0 1600 2000 None]
  by (simp add: Let_def entry0_composed) (simp add: entry0_def)

text \<open>
  C4, as stated, fails on the direction of the offset: for the cue anchored at
  \<open>(0.125, 0.125, 0.125, 0.125)\<close> on 800 by 1000 pixels the margin target is the left
  margin (end point \<open>x = 20\<close>, left of the start point \<open>x = 200\<close>), and the offset point
  \<open>x = 210\<close> lies to the right of the start point. It also fails on the margin test for
  the cue centred on the page, on 918 pixels: the centre of its rectangle is left of the
  midline, and the connector goes from the left edge \<open>x = 130\<close> to the right margin
  \<open>x = 898\<close>, because the rounded centre is not below the midline.
\<close>

theorem C4_connector_direction_counterexample:
  "polyline_points (renderAnnotation 800 1000 None entry0) = [(200, 250), (210, 250), (20, 250)]
   \<and> \<not> (sgn (fst (polyline_points (renderAnnotation 800 1000 None entry0) ! 1)
              - fst (polyline_points (renderAnnotation 800 1000 None entry0) ! 0))
        = sgn (fst (polyline_points (renderAnnotation 800 1000 None entry0) ! 2)
              - fst (polyline_points (renderAnnotation 800 1000 None entry0) ! 0)))
   \<and> (box_x (selection_box entry_centred) + box_width (selection_box entry_centred) / 2) * 918
       < 918 / 2
   \<and> polyline_points (renderAnnotation 918 1188 None entry_centred)
       = [(130, 150), (120, 150), (898, 150)]"
  by (simp add: entry0_composed margin_side_changes_with_size)

text \<open>
  C4, amended. Every cue of the current page gets a connector of three points on the
  horizontal line through the bottom edge of its anchor rectangle, every number computed
  in binary64. The target is the left margin iff the rectangle's horizontal centre,
  computed as \<open>x * W + (width * W) / 2\<close>, is below \<open>W / 2\<close>. For a left target the line
  starts at the rectangle's right edge, goes to the point 10 pixels further right, away
  from the rectangle, and ends at \<open>x = 20\<close>; for a right target it starts at the left
  edge, goes to the point 10 pixels further left and ends at \<open>x = W - 20\<close>.
\<close>

theorem C4_connector_geometry_amended:
  assumes "canvasRef v = Some (W, H)" and "entry \<in> set (entries v)"
    and "page_number entry = currentPage v"
  shows "renderAnnotation W H (selectedEntryId v) entry \<in> set (blocking_annotation (renderHighlights v))
       \<and> polyline_points (renderAnnotation W H (selectedEntryId v) entry) =
          (if add64 (mul64 (box_x (selection_box entry)) W)
                    (div64 (mul64 (box_width (selection_box entry)) W) 2) < div64 W 2
           then [(add64 (mul64 (box_x (selection_box entry)) W) (mul64 (box_width (selection_box entry)) W),
                    add64 (mul64 (box_y (selection_box entry)) H) (mul64 (box_height (selection_box entry)) H)),
                 (add64 (add64 (mul64 (box_x (selection_box entry)) W)
                               (mul64 (box_width (selection_box entry)) W)) 10,
                    add64 (mul64 (box_y (selection_box entry)) H) (mul64 (box_height (selection_box entry)) H)),
                 (20, add64 (mul64 (box_y (selection_box entry)) H) (mul64 (box_height (selection_box entry)) H))]
           else [(mul64 (box_x (selection_box entry)) W,
                    add64 (mul64 (box_y (selection_box entry)) H) (mul64 (box_height (selection_box entry)) H)),
                 (sub64 (mul64 (box_x (selection_box entry)) W) 10,
                    add64 (mul64 (box_y (selection_box entry)) H) (mul64 (box_height (selection_box entry)) H)),
                 (sub64 W 20,
                    add64 (mul64 (box_y (selection_box entry)) H) (mul64 (box_height (selection_box entry)) H))])"
  using assms by (simp add: renderHighlights_def renderAnnotation_points)

theorem C4_connector_geometry_amended_witness:
  "map polyline_points (blocking_annotation (renderHighlights
       (viewer0\<lparr>canvasRef := Some (918, 1188), entries := [entry0, entry_centred]\<rparr>)))
     = [[(459 / 2, 297), (479 / 2, 297), (20, 297)], [(130, 150), (120, 150), (898, 150)]]"
  using C4_connector_geometry_amended
      [of "viewer0\<lparr>canvasRef := Some (918, 1188), entries := [entry0, entry_centred]\<rparr>"
          918 1188 entry_centred]
  by (simp add: viewer0_def renderHighlights_def renderAnnotation_points entry_centred_def
      entry0_def binary64_eval)


section \<open>Erase proximity\<close>

lemma threshold_value: "threshold = 5764607523034235 / 288230376151711744"
  by (simp add: threshold_def binary64_eval)

lemma threshold_pos: "0 < threshold"
  by (simp add: threshold_value)

lemma Math_sqrt_zero: "Math_sqrt 0 = 0"
  by (simp add: Math_sqrt_def binary64_zero)

text \<open>A squared distance of 0.0005 or more is beyond the threshold.\<close>

lemma beyond_threshold:
  assumes "1 / 2000 \<le> s"
  shows "(Math_sqrt s < threshold) = False"
proof -
  have "(223 / 10000)\<^sup>2 \<le> s" using assms by (simp add: power2_eq_square)
  then have r: "223 / 10000 \<le> sqrt s" by (intro real_le_rsqrt)
  have "\<bar>binary64 (sqrt s) - sqrt s\<bar> \<le> sqrt s / 9007199254740992 + 1 / 2 ^ 1075"
    using binary64_close_numeral [of "sqrt s"] r by simp
  moreover have "(1::real) / 2 ^ 1075 \<le> 1 / 10000" by simp
  ultimately have "221 / 10000 \<le> binary64 (sqrt s)" using r by linarith
  then show ?thesis by (simp add: Math_sqrt_def threshold_value)
qed

lemma near_path_iff:
  "near_path normX normY runs =
     (\<exists>p \<in> set (stroke_points runs).
        Math_sqrt (add64 (Math_pow (sub64 (parseFloat (fst p)) normX) 2)
                         (Math_pow (sub64 (parseFloat (snd p)) normY) 2)) < threshold)"
  by (induction normX normY runs rule: near_path.induct) (auto simp: Let_def)

text \<open>
  What the hit test does, for a canvas of positive size and a database that answers: it
  goes through the page's strokes in list order and deletes the first one that has a pair
  of stored numbers within the threshold, or nothing.
\<close>

lemma erase_first_in_list_order:
  assumes "canvasRef v = Some (W, H)" and "0 < W" and "0 < H" and "\<not> failing b"
  shows "handleEraseAtPoint x y (v, b) =
     (case find (\<lambda>mark. near_path (div64 x W) (div64 y H) (pathPoints (path_data mark)))
             (highlights v) of
        None \<Rightarrow> Inr (v, b)
      | Some mark \<Rightarrow>
          Inr (v\<lparr>highlights := getHighlightsForPage (scriptId v) (currentPage v) (userId v)
                    (b\<lparr>highlight_marks :=
                         filter (\<lambda>(u, m). \<not> (mark_id m = mark_id mark \<and> u = userId v)) (highlight_marks b),
                       delete_requests := delete_requests b @ [mark_id mark]\<rparr>)\<rparr>,
               b\<lparr>highlight_marks :=
                    filter (\<lambda>(u, m). \<not> (mark_id m = mark_id mark \<and> u = userId v)) (highlight_marks b),
                  delete_requests := delete_requests b @ [mark_id mark]\<rparr>))"
  using assms
  by (simp add: handleEraseAtPoint_def deleteHighlightMark_def split: option.split)

lemma viewer0_fields:
  "canvasRef viewer0 = Some (800, 1000)" "scriptId viewer0 = ''s1''" "userId viewer0 = ''u1''"
  "currentPage viewer0 = 1" "highlightMode viewer0 = Draw" "highlights viewer0 = []"
  "highlightHistory viewer0 = []"
  "failing backend0 = False" "highlight_marks backend0 = []" "delete_requests backend0 = []"
  by (simp_all add: viewer0_def backend0_def)

lemma drawn_stroke:
  "drawStroke markId now (x1, y1) (x2, y2) (viewer0, backend0)
     = (viewer0\<lparr>highlightHistory := [markId],
                highlights := [\<lparr>mark_id = markId, mark_script_id = ''s1'', mark_page_number = 1,
                   path_data = pathString 800 1000 [(x1, y1), (x2, y2)],
                   mark_color = ''#FFEB3B'', thickness = 5, opacity = 0.4, mark_created_at = now\<rparr>]\<rparr>,
        backend0\<lparr>highlight_marks :=
           [(''u1'', \<lparr>mark_id = markId, mark_script_id = ''s1'', mark_page_number = 1,
              path_data = pathString 800 1000 [(x1, y1), (x2, y2)],
              mark_color = ''#FFEB3B'', thickness = 5, opacity = 0.4, mark_created_at = now\<rparr>)]\<rparr>)"
  by (simp add: drawStroke_def viewer0_def backend0_def handleMouseUp_def handleMouseMove_def
      handleMouseDown_def saveHighlightMark_def getHighlightsForPage_def)

text \<open>
  C6 fails where the claim gives its example. The stroke stored as \<open>M 0 0 L 1 1\<close> is the
  straight line from \<open>(0,0)\<close> to \<open>(1,1)\<close>; an erase hit at the middle of an 800 by 1000
  canvas, \<open>(0.5, 0.5)\<close> in unit space, lies on it and deletes nothing, because the test
  looks at the two stored points only. The same happens to a stroke as the viewer stores
  it: drawn from \<open>(100,100)\<close> to \<open>(700,900)\<close> in one move, it is not erased by a
  pointer press on its middle \<open>(400,500)\<close>. (The hit at \<open>(0.9, 0.1)\<close> deletes nothing
  either, as the claim says.)
\<close>

theorem C6_erase_misses_stroke_between_points:
  "path_vertices (path_data diag2) = [(0, 0), (1, 1)]
   \<and> handleEraseAtPoint 400 500
        (viewer0\<lparr>highlightMode := Erase, highlights := [diag2]\<rparr>,
         backend0\<lparr>highlight_marks := [(''u1'', diag2)]\<rparr>)
     = Inr (viewer0\<lparr>highlightMode := Erase, highlights := [diag2]\<rparr>,
            backend0\<lparr>highlight_marks := [(''u1'', diag2)]\<rparr>)
   \<and> handleEraseAtPoint 720 100
        (viewer0\<lparr>highlightMode := Erase, highlights := [diag2]\<rparr>,
         backend0\<lparr>highlight_marks := [(''u1'', diag2)]\<rparr>)
     = Inr (viewer0\<lparr>highlightMode := Erase, highlights := [diag2]\<rparr>,
            backend0\<lparr>highlight_marks := [(''u1'', diag2)]\<rparr>)
   \<and> map (path_vertices \<circ> path_data)
         (highlights (fst (drawStroke ''d'' 1 (100, 100) (700, 900) (viewer0, backend0))))
     = [[(1 / 8, 1 / 10), (7 / 8, 9 / 10)]]
   \<and> handleMouseDown 400 500 (eraser (drawStroke ''d'' 1 (100, 100) (700, 900) (viewer0, backend0)))
     = eraser (drawStroke ''d'' 1 (100, 100) (700, 900) (viewer0, backend0))"
  by (simp add: handleMouseDown_def handleEraseAtPoint_def eraser_def drawn_stroke viewer0_fields
      diag2_def pathString_def quotient_text_def number_text_def magnitude_text_def
      plain_def Let_def binary64_eval beyond_threshold)

text \<open>
  A stroke with a stored point on the hit is deleted, the first such stroke of the list:
  of the two diagonal strokes, the hit at the middle deletes the second, which has the
  middle among its points, and leaves the first.
\<close>

lemma erase_hits_stored_point:
  "map mark_id (highlights (fst (projr (handleEraseAtPoint 400 500
      (viewer0\<lparr>highlightMode := Erase, highlights := [diag2, diag3]\<rparr>,
       backend0\<lparr>highlight_marks := [(''u1'', diag2), (''u1'', diag3)]\<rparr>))))) = [''d2'']"
  by (simp add: handleEraseAtPoint_def deleteHighlightMark_def getHighlightsForPage_def
      viewer0_fields diag2_def diag3_def Let_def binary64_eval beyond_threshold
      Math_sqrt_zero threshold_pos)

text \<open>
  The distance is compared as binary64 computes it. The stroke drawn from \<open>(96,100)\<close> is
  stored with the point \<open>(0.12, 0.1)\<close>; the hit at \<open>(80,100)\<close>, \<open>(0.1, 0.1)\<close> in unit
  space, is 0.02 away from it. The subtraction \<open>0.12 - 0.1\<close> gives
  \<open>0.01999999999999999\<close>, which is below the threshold, and the stroke is deleted.
\<close>

lemma distance_at_threshold:
  "Math_sqrt (add64 (Math_pow (sub64 (parseFloat (3 / 25)) (div64 80 800)) 2)
                    (Math_pow (sub64 (parseFloat (1 / 10)) (div64 100 1000)) 2))
     = 720575940379279 / 36028797018963968"
proof -
  have s: "add64 (Math_pow (sub64 (parseFloat (3 / 25)) (div64 80 800)) 2)
              (Math_pow (sub64 (parseFloat (1 / 10)) (div64 100 1000)) 2)
          = 7378697629483813 / 18446744073709551616"
    by (simp add: binary64_eval)
  have "Math_sqrt (7378697629483813 / 18446744073709551616)
      = of_int 5764607523034232 * 2 powi (- 58)"
    by (rule Math_sqrt_eq) (simp_all add: power2_eq_square)
  also have "\<dots> = 720575940379279 / 36028797018963968" by simp
  finally show ?thesis unfolding s .
qed

lemma erase_at_rounded_distance:
  "highlights (fst (handleMouseDown 80 100
      (eraser (drawStroke ''e'' 1 (96, 100) (200, 100) (viewer0, backend0))))) = []"
proof -
  have "near_path (div64 80 800) (div64 100 1000) [3 / 25, 1 / 10, 1 / 4, 1 / 10]"
    by (simp add: Let_def distance_at_threshold threshold_value)
  then show ?thesis
    by (simp add: handleMouseDown_def handleEraseAtPoint_def eraser_def drawn_stroke
        pathString_def quotient_text_def number_text_def magnitude_text_def plain_def
        deleteHighlightMark_def getHighlightsForPage_def viewer0_fields)
qed

text \<open>
  The hit test reads the digits of a number in exponent notation as two numbers. The
  stroke drawn from \<open>(0.0004, 500)\<close> to \<open>(200, 200)\<close> is stored as
  \<open>M 5e-7 0.5 L 0.25 0.2\<close>, and the test reads the pairs \<open>(5, 7)\<close>, \<open>(0.5, 0.25)\<close>
  and a last \<open>0.2\<close> without a partner. A press on the end of the stroke, \<open>(200, 200)\<close>,
  does not erase it; a press on \<open>(400, 250)\<close>, a quarter of the canvas away from the
  stroke, does.
\<close>

lemma exponent10_eval:
  "exponent10 (1 / 2000000) = - 7"
  "mantissa10 (1 / 2000000) = 5"
proof -
  have p: "(10::real) powr (- 7) = 1 / 10 ^ 7" "(10::real) powr (- 6) = 1 / 10 ^ 6"
    by (simp_all add: powr_minus_divide)
  have "(10::real) powr (- 7) \<le> 1 / 2000000" "(1::real) / 2000000 < 10 powr (- 6)"
    unfolding p by simp_all
  then have "- 7 \<le> log 10 (1 / 2000000)" "log 10 (1 / 2000000) < - 6"
    by (simp_all add: le_log_iff log_less_iff)
  then show e: "exponent10 (1 / 2000000) = - 7"
    unfolding exponent10_def by linarith
  show "mantissa10 (1 / 2000000) = 5"
    unfolding mantissa10_def e by (simp add: p)
qed

lemma erase_reads_exponent_digits:
  "map path_data (highlights (fst (drawStroke ''m1'' 7 (1 / 2500, 500) (200, 200) (viewer0, backend0))))
     = [[Cmd CHR ''M'', Sci (1 / 2000000), Num (1 / 2), Cmd CHR ''L'', Num (1 / 4), Num (1 / 5)]]"
  "pathPoints [Cmd CHR ''M'', Sci (1 / 2000000), Num (1 / 2), Cmd CHR ''L'', Num (1 / 4), Num (1 / 5)]
     = [5, 7, 1 / 2, 1 / 4, 1 / 5]"
  "handleMouseDown 200 200 (eraser (drawStroke ''m1'' 7 (1 / 2500, 500) (200, 200) (viewer0, backend0)))
     = eraser (drawStroke ''m1'' 7 (1 / 2500, 500) (200, 200) (viewer0, backend0))"
  "highlights (fst (handleMouseDown 400 250
      (eraser (drawStroke ''m1'' 7 (1 / 2500, 500) (200, 200) (viewer0, backend0))))) = []"
  by (simp_all add: handleMouseDown_def handleEraseAtPoint_def eraser_def drawn_stroke
      viewer0_fields pathString_def quotient_text_def number_text_def magnitude_text_def
      plain_def exponent10_eval deleteHighlightMark_def getHighlightsForPage_def
      Let_def binary64_eval beyond_threshold Math_sqrt_zero threshold_pos)
section \<open>Undo history\<close>

lemma undo_step:
  assumes "\<not> failing b" and "highlightHistory v = h @ [i]"
  shows "handleUndoHighlight (v, b) =
     Inr (v\<lparr>highlights := getHighlightsForPage (scriptId v) (currentPage v) (userId v)
               (b\<lparr>highlight_marks :=
                    filter (\<lambda>(u, m). \<not> (mark_id m = i \<and> u = userId v)) (highlight_marks b),
                  delete_requests := delete_requests b @ [i]\<rparr>),
             highlightHistory := h\<rparr>,
          b\<lparr>highlight_marks :=
               filter (\<lambda>(u, m). \<not> (mark_id m = i \<and> u = userId v)) (highlight_marks b),
             delete_requests := delete_requests b @ [i]\<rparr>)"
  using assms by (simp add: handleUndoHighlight_def deleteHighlightMark_def)

lemma undo_empty: "highlightHistory v = [] \<Longrightarrow> handleUndoHighlight (v, b) = Inr (v, b)"
  by (simp add: handleUndoHighlight_def)

lemma deleteAll_answers:
  "\<not> failing b \<Longrightarrow> \<exists>b'. deleteAll marks u b = Inr b' \<and> \<not> failing b'"
  by (induction marks arbitrary: b) (auto simp: deleteHighlightMark_def)

text \<open>
  C7. With the database answering and the undo history \<open>[a, b, c]\<close>, three undos ask
  the database to delete \<open>c\<close>, then \<open>b\<close>, then \<open>a\<close>, and remove these strokes; the
  history is then empty and a fourth undo changes nothing. A page change empties the
  history, and so does a confirmed clear of the page.
\<close>

theorem C7_undo_lifo:
  assumes "\<not> failing b" and "highlightHistory v = [ida, idb, idc]"
  shows "\<exists>w1 w2 w3.
           handleUndoHighlight (v, b) = Inr w1
         \<and> handleUndoHighlight w1 = Inr w2
         \<and> handleUndoHighlight w2 = Inr w3
         \<and> delete_requests (snd w1) = delete_requests b @ [idc]
         \<and> delete_requests (snd w2) = delete_requests b @ [idc, idb]
         \<and> delete_requests (snd w3) = delete_requests b @ [idc, idb, ida]
         \<and> highlight_marks (snd w3)
             = filter (\<lambda>(u, m). \<not> (mark_id m \<in> {ida, idb, idc} \<and> u = userId v)) (highlight_marks b)
         \<and> highlightHistory (fst w3) = []
         \<and> handleUndoHighlight w3 = Inr w3
         \<and> highlightHistory (fst (onPageChange page (v, b))) = []
         \<and> (\<exists>w'. handleClearAllHighlights True (v, b) = Inr w' \<and> highlightHistory (fst w') = [])"
proof -
  let ?gone = "\<lambda>i. \<lambda>(u, m). \<not> (mark_id m = i \<and> u = userId v)"
  define b1 where "b1 = b\<lparr>highlight_marks := filter (?gone idc) (highlight_marks b),
      delete_requests := delete_requests b @ [idc]\<rparr>"
  define v1 where "v1 = v\<lparr>highlights := getHighlightsForPage (scriptId v) (currentPage v) (userId v) b1,
      highlightHistory := [ida, idb]\<rparr>"
  define b2 where "b2 = b1\<lparr>highlight_marks := filter (?gone idb) (highlight_marks b1),
      delete_requests := delete_requests b1 @ [idb]\<rparr>"
  define v2 where "v2 = v1\<lparr>highlights := getHighlightsForPage (scriptId v) (currentPage v) (userId v) b2,
      highlightHistory := [ida]\<rparr>"
  define b3 where "b3 = b2\<lparr>highlight_marks := filter (?gone ida) (highlight_marks b2),
      delete_requests := delete_requests b2 @ [ida]\<rparr>"
  define v3 where "v3 = v2\<lparr>highlights := getHighlightsForPage (scriptId v) (currentPage v) (userId v) b3,
      highlightHistory := []\<rparr>"
  have s1: "handleUndoHighlight (v, b) = Inr (v1, b1)"
    using undo_step [OF assms(1), of v "[ida, idb]" idc] assms(2) by (simp add: v1_def b1_def)
  have f1: "\<not> failing b1" using assms(1) by (simp add: b1_def)
  have s2: "handleUndoHighlight (v1, b1) = Inr (v2, b2)"
    using undo_step [OF f1, of v1 "[ida]" idb] by (simp add: v1_def v2_def b2_def)
  have f2: "\<not> failing b2" using f1 by (simp add: b2_def)
  have s3: "handleUndoHighlight (v2, b2) = Inr (v3, b3)"
    using undo_step [OF f2, of v2 "[]" ida] by (simp add: v1_def v2_def v3_def b3_def)
  have s4: "handleUndoHighlight (v3, b3) = Inr (v3, b3)"
    by (rule undo_empty) (simp add: v3_def)
  have marks: "highlight_marks b3
      = filter (\<lambda>(u, m). \<not> (mark_id m \<in> {ida, idb, idc} \<and> u = userId v)) (highlight_marks b)"
    by (auto simp: b3_def b2_def b1_def intro: filter_cong)
  obtain bc where "deleteAll (highlights v) (userId v) b = Inr bc"
    using deleteAll_answers [OF assms(1)] by blast
  then have clear: "\<exists>w'. handleClearAllHighlights True (v, b) = Inr w' \<and> highlightHistory (fst w') = []"
    by (simp add: handleClearAllHighlights_def)
  have page: "highlightHistory (fst (onPageChange page (v, b))) = []"
    by (simp add: onPageChange_def loadHighlights_def)
  show ?thesis
    using s1 s2 s3 s4 marks clear page
    by (intro exI [of _ "(v1, b1)"] exI [of _ "(v2, b2)"] exI [of _ "(v3, b3)"])
       (simp add: b1_def b2_def b3_def v3_def)
qed

lemma three_strokes_state:
  "highlightHistory (fst three_strokes) = [''a'', ''b'', ''c'']"
  "\<not> failing (snd three_strokes)"
  "delete_requests (snd three_strokes) = []"
  "map mark_id (highlights (fst three_strokes)) = [''a'', ''b'', ''c'']"
  by (simp_all add: three_strokes_def drawStroke_def viewer0_def backend0_def handleMouseUp_def
      handleMouseMove_def handleMouseDown_def pathString_def quotient_text_def number_text_def
      magnitude_text_def plain_def saveHighlightMark_def getHighlightsForPage_def)

theorem C7_undo_lifo_witness:
  "delete_requests (snd (projr (handleUndoHighlight (projr (handleUndoHighlight
      (projr (handleUndoHighlight three_strokes)))))))
   = [''c'', ''b'', ''a'']"
  using C7_undo_lifo [of "snd three_strokes" "fst three_strokes" "''a''" "''b''" "''c''" 2]
  by (auto simp: three_strokes_state)

lemma erase_keeps_history:
  "handleEraseAtPoint x y (v, b) = Inr (v1, b1) \<Longrightarrow> highlightHistory v1 = highlightHistory v"
  by (auto simp: handleEraseAtPoint_def Let_def split: option.splits if_splits sum.splits)

lemma getHighlightsForPage_delete_requests:
  "getHighlightsForPage s p u (b\<lparr>delete_requests := r\<rparr>) = getHighlightsForPage s p u b"
  by (simp add: getHighlightsForPage_def)

text \<open>
  C10. When an erase hit deletes the stroke whose id is on top of the undo history, the
  history keeps the id. The undo that follows pops it and asks the database to delete a
  stroke that is no longer there: the table and the page's strokes stay as the erase left
  them, and the history is one entry shorter.
\<close>

theorem C10_undo_after_erase:
  assumes "canvasRef v = Some (W, H)" and "0 < W" and "0 < H" and "\<not> failing b"
    and "find (\<lambda>mark. near_path (div64 x W) (div64 y H) (pathPoints (path_data mark)))
           (highlights v) = Some mark"
    and "highlightHistory v \<noteq> []" and "last (highlightHistory v) = mark_id mark"
  shows "\<exists>v1 b1 v2 b2.
           handleEraseAtPoint x y (v, b) = Inr (v1, b1)
         \<and> highlightHistory v1 = highlightHistory v
         \<and> highlight_marks b1
             = filter (\<lambda>(u, m). \<not> (mark_id m = mark_id mark \<and> u = userId v)) (highlight_marks b)
         \<and> delete_requests b1 = delete_requests b @ [mark_id mark]
         \<and> handleUndoHighlight (v1, b1) = Inr (v2, b2)
         \<and> delete_requests b2 = delete_requests b1 @ [mark_id mark]
         \<and> highlight_marks b2 = highlight_marks b1
         \<and> highlights v2 = highlights v1
         \<and> highlightHistory v2 = butlast (highlightHistory v)"
proof -
  let ?gone = "\<lambda>(u, m). \<not> (mark_id m = mark_id mark \<and> u = userId v)"
  define b1 where "b1 = b\<lparr>highlight_marks := filter ?gone (highlight_marks b),
      delete_requests := delete_requests b @ [mark_id mark]\<rparr>"
  define v1 where "v1 = v\<lparr>highlights := getHighlightsForPage (scriptId v) (currentPage v) (userId v) b1\<rparr>"
  define b2 where "b2 = b1\<lparr>delete_requests := delete_requests b1 @ [mark_id mark]\<rparr>"
  define v2 where "v2 = v1\<lparr>highlightHistory := butlast (highlightHistory v)\<rparr>"
  have e: "handleEraseAtPoint x y (v, b) = Inr (v1, b1)"
    using assms(1-5)
    by (simp add: handleEraseAtPoint_def deleteHighlightMark_def v1_def b1_def)
  have f1: "\<not> failing b1" using assms(4) by (simp add: b1_def)
  have h1: "highlightHistory v1 = butlast (highlightHistory v) @ [mark_id mark]"
    using assms(6,7) append_butlast_last_id [of "highlightHistory v"] by (simp add: v1_def)
  have "filter ?gone (highlight_marks b1) = highlight_marks b1"
    by (simp add: b1_def)
  then have b2': "b1\<lparr>highlight_marks := filter (\<lambda>(u, m). \<not> (mark_id m = mark_id mark \<and> u = userId v1))
                        (highlight_marks b1),
                     delete_requests := delete_requests b1 @ [mark_id mark]\<rparr> = b2"
    by (simp add: b2_def v1_def)
  have u: "handleUndoHighlight (v1, b1) = Inr (v2, b2)"
    using undo_step [OF f1 h1] unfolding b2'
    by (simp add: v2_def v1_def b2_def getHighlightsForPage_delete_requests)
  show ?thesis
    using e u
    by (intro exI [of _ v1] exI [of _ b1] exI [of _ v2] exI [of _ b2])
       (simp add: v1_def v2_def b1_def b2_def)
qed

theorem C10_undo_after_erase_witness:
  "highlightHistory (fst (projr (handleEraseAtPoint 200 300 three_strokes))) = [''a'', ''b'', ''c'']
   \<and> highlight_marks (snd (projr (handleUndoHighlight (projr (handleEraseAtPoint 200 300 three_strokes)))))
     = highlight_marks (snd (projr (handleEraseAtPoint 200 300 three_strokes)))
   \<and> highlights (fst (projr (handleUndoHighlight (projr (handleEraseAtPoint 200 300 three_strokes)))))
     = highlights (fst (projr (handleEraseAtPoint 200 300 three_strokes)))
   \<and> highlightHistory (fst (projr (handleUndoHighlight
         (projr (handleEraseAtPoint 200 300 three_strokes))))) = [''a'', ''b'']
   \<and> delete_requests (snd (projr (handleUndoHighlight
         (projr (handleEraseAtPoint 200 300 three_strokes))))) = [''c'', ''c'']"
proof -
  have st: "canvasRef (fst three_strokes) = Some (800, 1000)"
    "map mark_id (highlights (fst three_strokes)) = [''a'', ''b'', ''c'']"
    "find (\<lambda>mark. near_path (div64 200 800) (div64 300 1000) (pathPoints (path_data mark)))
        (highlights (fst three_strokes)) = Some (highlights (fst three_strokes) ! 2)"
    "mark_id (highlights (fst three_strokes) ! 2) = ''c''"
    by (simp_all add: three_strokes_def drawStroke_def viewer0_def backend0_def handleMouseUp_def
        handleMouseMove_def handleMouseDown_def pathString_def quotient_text_def number_text_def
        magnitude_text_def plain_def saveHighlightMark_def
        getHighlightsForPage_def Let_def binary64_eval beyond_threshold Math_sqrt_zero
        threshold_pos)
  have pos: "0 < (800 :: real)" "0 < (1000 :: real)" by simp_all
  have top: "highlightHistory (fst three_strokes) \<noteq> []"
    "last (highlightHistory (fst three_strokes)) = mark_id (highlights (fst three_strokes) ! 2)"
    by (simp_all add: three_strokes_state st(4))
  show ?thesis
    using C10_undo_after_erase [OF st(1) pos three_strokes_state(2) st(3) top]
    by (auto simp: st(1,3,4) three_strokes_state)
qed


section \<open>Index validation in the three save paths\<close>

lemma addCue_rejects:
  assumes "indexNumber < 1 \<or> indexNumber \<in> set (existingIndices (fst s))"
  shows "\<exists>err. addCue newId now blockingText indexNumber annotationType s = Rejected err"
  using assms by (auto simp: addCue_def AddBlockingDialog_handleSave_def)

lemma CuePreview_rejects:
  assumes "editIndex < 1 \<or> editIndex \<noteq> index_number entry \<and> editIndex \<in> set (existingIndices (fst s))"
  shows "\<exists>err. CuePreview_handleSave entry uid editIndex editType editText now s = Rejected err"
  using assms by (cases s) (auto simp: CuePreview_handleSave_def)

lemma handleSaveEdit_rejects_duplicate:
  assumes "\<not> trim_empty editText" and "e \<in> set chartEntries"
    and "entry_id e \<noteq> entry_id entry" and "index_number e = editIndex"
    and "editIndex \<noteq> index_number entry"
  shows "handleSaveEdit chartEntries entry editText editIndex editAnnotationType now
           = Rejected (IndexInUse editIndex)"
proof -
  have "find (\<lambda>e. entry_id e \<noteq> entry_id entry \<and> index_number e = editIndex) chartEntries \<noteq> None"
    using assms(2-4) by (auto simp: find_None_iff)
  then show ?thesis using assms(1,5) by (simp add: handleSaveEdit_def)
qed

lemma getEntriesForPage_page:
  "e \<in> set (getEntriesForPage sid pg uid b) \<Longrightarrow> page_number e = pg"
  by (auto simp: getEntriesForPage_def split: if_splits)

text \<open>
  C5 fails on the second edit path. \<open>BlockingChart.handleSaveEdit\<close> has no check of
  \<open>editIndex < 1\<close>: editing the only cue of the page to index 0 is not refused, the
  handler passes the entry with index 0 to \<open>onUpdateEntry\<close> and closes the edit. The other
  two paths refuse the same index with \<open>Index must be at least 1\<close>.
\<close>

theorem C5_chart_edit_accepts_index_below_one:
  "handleSaveEdit [entry0] entry0 ''Exit'' 0 Blocking 9
     = Done (Some (entry0\<lparr>blocking_text := ''Exit'', index_number := 0, updated_at := 9\<rparr>))
   \<and> editCueInChart entry0 ''Exit'' 0 Blocking 9 session0 = Done session0
   \<and> CuePreview_handleSave entry0 ''u1'' 0 Blocking ''Exit'' 9 session0 = Rejected IndexBelowOne
   \<and> addCue ''e2'' 9 ''Exit'' 0 Blocking session0 = Rejected IndexBelowOne"
  by (simp add: handleSaveEdit_def editCueInChart_def handleUpdateEntry_def loadEntries_def
      getEntriesForPage_def CuePreview_handleSave_def addCue_def AddBlockingDialog_handleSave_def
      existingIndices_def session0_def backend0_def entry0_def trim_empty_def is_space_def
      getAnnotationColor_def)

lemma addCue_other_page:
  "\<exists>s'. addCue ''e2'' 9 ''Enter'' 1 Blocking
          (\<lparr>bp_script_id = ''s1'', bp_user = Some ''u1'', bp_currentPage = 2, bp_entries = [],
            pendingSelection = Some \<lparr>pageNumber = 2, selectionBox = selection_box entry0,
                                      selectionText = None, selectionType = SelText\<rparr>\<rparr>,
           backend0\<lparr>blocking_entries := [(''u1'', entry0)]\<rparr>) = Done s'
        \<and> map (\<lambda>(u, e). (page_number e, index_number e)) (blocking_entries (snd s')) = [(1, 1), (2, 1)]"
  by (simp add: addCue_def AddBlockingDialog_handleSave_def existingIndices_def
      handleSaveNewEntry_def saveBlockingEntry_def loadEntries_def getEntriesForPage_def
      backend0_def entry0_def trim_empty_def is_space_def)



section \<open>Render completion and overlay repaint\<close>

lemma overlayEffect_frame:
  "pageRenderKey (overlayEffect v) = pageRenderKey v"
  "canvasRef (overlayEffect v) = canvasRef v"
  by (simp_all add: overlayEffect_def renderSavedHighlights_def renderHighlights_def
      split: option.split)

lemma overlayEffect_unrendered:
  "pageRenderKey v = 0 \<Longrightarrow> overlayEffect v = v"
  by (simp add: overlayEffect_def)

lemma overlayEffect_layers:
  assumes "0 < pageRenderKey v" and "canvasRef v = Some (w, h)"
  shows "blocking_annotation (overlayEffect v)
           = map (renderAnnotation w h (selectedEntryId v))
               (filter (\<lambda>entry. page_number entry = currentPage v) (entries v))"
    and "map svg_d (highlight_mark (overlayEffect v))
           = map (\<lambda>mark. absolutePath w h (path_data mark)) (highlights v)"
  using assms
  by (simp_all add: overlayEffect_def renderSavedHighlights_def renderHighlights_def comp_def)

text \<open>
  C9 fails when a second call of \<open>renderPage\<close> starts while the first still waits for its
  page. The first call has no render task yet, \<open>renderTaskRef\<close> is empty and the second
  call cancels nothing. Both calls then set the canvas and start a task: two renders are in
  flight on a canvas of 1600 by 2000 pixels. When the first one, asked for 800 by 1000
  pixels, completes, it increments \<open>pageRenderKey\<close> and the overlay is repainted for 1600
  by 2000 pixels, the size of a render that has not completed. It also clears
  \<open>renderTaskRef\<close>, which held the second task, so that a third call cannot cancel that
  task either. The signal and the repaint are the same when the second task has failed
  before (PDF.js may refuse a second render on a canvas in use): then no render at 1600 by
  2000 pixels completes at all.
\<close>

theorem C9_stale_render_signals_repaint:
  "render_tasks (run overlapping_renders rendering0)
     = [(0, InFlight, (800, 1000)), (1, InFlight, (1600, 2000))]
   \<and> renderTaskRef (run overlapping_renders rendering0) = Some 1
   \<and> canvasRef (view (run overlapping_renders rendering0)) = Some (1600, 2000)
   \<and> pageRenderKey (view (run overlapping_renders rendering0)) = 0
   \<and> blocking_annotation (view (run overlapping_renders rendering0)) = []
   \<and> pageRenderKey (view (run (overlapping_renders @ [Settled 0 Completes]) rendering0)) = 1
   \<and> map polyline_points (blocking_annotation
         (view (run (overlapping_renders @ [Settled 0 Completes]) rendering0)))
       = [[(400, 500), (410, 500), (20, 500)]]
   \<and> render_tasks (run (overlapping_renders @ [Settled 0 Completes]) rendering0)
       = [(1, InFlight, (1600, 2000))]
   \<and> renderTaskRef (run (overlapping_renders @ [Settled 0 Completes]) rendering0) = None
   \<and> render_tasks (run (overlapping_renders @ [Settled 0 Completes, RenderPage 2400 3000]) rendering0)
       = [(1, InFlight, (1600, 2000))]
   \<and> pageRenderKey (view (run (overlapping_renders @ [Settled 1 Fails, Settled 0 Completes])
         rendering0)) = 1
   \<and> map polyline_points (blocking_annotation
         (view (run (overlapping_renders @ [Settled 1 Fails, Settled 0 Completes]) rendering0)))
       = [[(400, 500), (410, 500), (20, 500)]]"
  by (simp add: run_def overlapping_renders_def rendering0_def viewer0_def renderPage_begin_def
      renderPage_gotPage_def renderPage_settled_def overlayEffect_def renderHighlights_def
      renderSavedHighlights_def entry0_composed cancel_def)

text \<open>
  What holds of the cancellation: a call of \<open>renderPage\<close> marks the task that
  \<open>renderTaskRef\<close> holds, and the settling of a marked task and the text layer that is
  rebuilt after it change neither \<open>pageRenderKey\<close> nor the overlay.
\<close>

lemma map_of_cancel:
  "map_of ts t = Some (st, viewport) \<Longrightarrow> map_of (cancel t ts) t = Some (Cancelled, viewport)"
  by (induction ts) (auto simp: cancel_def split: if_splits)

lemma begin_cancels:
  assumes "canvasRef (view r) \<noteq> None" and "renderTaskRef r = Some t"
    and "map_of (render_tasks r) t = Some (InFlight, viewport)"
  shows "map_of (render_tasks (step (RenderPage w h) r)) t = Some (Cancelled, viewport)"
    and "renderTaskRef (step (RenderPage w h) r) = None"
  using assms by (simp_all add: renderPage_begin_def map_of_cancel)

lemma cancelled_render_is_silent:
  assumes "map_of (render_tasks r) t = Some (Cancelled, viewport)"
  shows "pageRenderKey (view (step (Settled t s) r)) = pageRenderKey (view r)"
    and "blocking_annotation (view (step (Settled t s) r)) = blocking_annotation (view r)"
    and "highlight_mark (view (step (Settled t s) r)) = highlight_mark (view r)"
    and "getTextContent_waiting (step (Settled t s) r) = getTextContent_waiting r @ [viewport]"
  using assms by (simp_all add: renderPage_settled_def Let_def)

lemma text_layer_keeps_overlay:
  "pageRenderKey (view (step (GotTextContent k textItems) r)) = pageRenderKey (view r)"
  "blocking_annotation (view (step (GotTextContent k textItems) r)) = blocking_annotation (view r)"
  "highlight_mark (view (step (GotTextContent k textItems) r)) = highlight_mark (view r)"
  "canvasRef (view (step (GotTextContent k textItems) r)) = canvasRef (view r)"
  by (simp_all add: renderPage_gotTextContent_def Let_def)

text \<open>
  \<open>pageRenderKey\<close> changes only when a task that was not cancelled completes, by one, and
  as long as it is 0 no step changes the overlay.
\<close>

lemma key_step:
  "pageRenderKey (view (step e r)) = pageRenderKey (view r)
   \<or> (\<exists>t viewport. e = Settled t Completes \<and> map_of (render_tasks r) t = Some (InFlight, viewport))
     \<and> pageRenderKey (view (step e r)) = pageRenderKey (view r) + 1"
  by (cases e)
     (auto simp: renderPage_begin_def renderPage_gotPage_def renderPage_settled_def
        renderPage_gotTextContent_def Let_def overlayEffect_frame
        split: option.splits task_state.splits settlement.splits)

lemma no_repaint_while_unrendered:
  assumes "pageRenderKey (view (step e r)) = 0"
  shows "blocking_annotation (view (step e r)) = blocking_annotation (view r)"
    and "highlight_mark (view (step e r)) = highlight_mark (view r)"
  using assms
  by (cases e;
      auto simp: renderPage_begin_def renderPage_gotPage_def renderPage_settled_def
        renderPage_gotTextContent_def Let_def overlayEffect_frame overlayEffect_unrendered
        split: option.splits task_state.splits settlement.splits)+

text \<open>
  Once \<open>pageRenderKey\<close> is positive, a change of the selection, the entries or the
  highlights repaints the overlay at once, at the size the canvas has at that moment.
\<close>

lemma change_repaints:
  assumes "0 < pageRenderKey (view r)" and "canvasRef (view r) = Some (cw, ch)"
  shows "blocking_annotation (view (step (SelectEntry sel) r))
           = map (renderAnnotation cw ch sel)
               (filter (\<lambda>entry. page_number entry = currentPage (view r)) (entries (view r)))"
    and "blocking_annotation (view (step (SetEntries es) r))
           = map (renderAnnotation cw ch (selectedEntryId (view r)))
               (filter (\<lambda>entry. page_number entry = currentPage (view r)) es)"
    and "map svg_d (highlight_mark (view (step (SetHighlights hs) r)))
           = map (\<lambda>mark. absolutePath cw ch (path_data mark)) hs"
  using assms by (simp_all add: overlayEffect_layers)

text \<open>
  A render started after the first one has completed: the canvas has the new size, the
  task is in flight and \<open>pageRenderKey\<close> is still 1 when the cue is selected, and the
  connector is repainted for 1600 by 2000 pixels before the render has completed.
\<close>

lemma repaint_on_selection_before_signal:
  "pageRenderKey (view (run [RenderPage 800 1000, GotPage 0, Settled 0 Completes,
        RenderPage 1600 2000, GotPage 0, SelectEntry (Some ''e1'')] rendering0)) = 1"
  "render_tasks (run [RenderPage 800 1000, GotPage 0, Settled 0 Completes,
        RenderPage 1600 2000, GotPage 0, SelectEntry (Some ''e1'')] rendering0)
     = [(1, InFlight, (1600, 2000))]"
  "map polyline_points (blocking_annotation (view (run [RenderPage 800 1000, GotPage 0,
        Settled 0 Completes, RenderPage 1600 2000, GotPage 0] rendering0)))
     = [[(200, 250), (210, 250), (20, 250)]]"
  "map polyline_points (blocking_annotation (view (run [RenderPage 800 1000, GotPage 0,
        Settled 0 Completes, RenderPage 1600 2000, GotPage 0, SelectEntry (Some ''e1'')] rendering0)))
     = [[(400, 500), (410, 500), (20, 500)]]"
  by (simp_all add: run_def rendering0_def viewer0_def renderPage_begin_def
      renderPage_gotPage_def renderPage_settled_def overlayEffect_def renderHighlights_def
      renderSavedHighlights_def entry0_composed cancel_def)

end
